theory Spec2Isabelle
  imports Complex_Main
begin

section \<open>Python exceptions as values\<close>

text \<open>
  Every \<^verbatim>\<open>raise\<close> of the Python sources is a value of \<open>py_error\<close>; a function that can
  raise returns \<open>py_error + 'a\<close> with \<open>Inl\<close> for the exception. \<open>ToolFailure\<close> stands for
  whatever exception an MCP tool call raises at run time (network, SQL, ...).
\<close>

datatype py_error =
    ValueError string
  | AttributeError string
  | KeyError
  | NotImplementedError
  | TypeError string
  | ToolFailure

section \<open>The cost circuit breaker (src/core/security/cost\_breaker.py)\<close>

text \<open>
  Costs are Python floats in the source; they are modelled as rationals, with exact sums
  and comparisons. The model therefore stands for the code on finite costs whose sums are
  not rounded across a limit; where rounding brings a float sum down onto a limit, or
  a total is not a number, the code's test \<^verbatim>\<open>>\<close> lets the call through and the exact
  sum does not. The UTC clock is a parameter \<open>now\<close>, the number of seconds since the
  epoch, read once per call of the public API;
  \<^verbatim>\<open>datetime.utcnow().date()\<close> is the day number and \<^verbatim>\<open>.hour\<close> the hour of that day.
  ISO timestamps written by \<^verbatim>\<open>isoformat()\<close> and read back by \<^verbatim>\<open>fromisoformat\<close> are kept
  as the number of seconds they denote.
\<close>

definition utc_date :: "nat \<Rightarrow> nat" where
  "utc_date now = now div 86400"

definition utc_hour :: "nat \<Rightarrow> nat" where
  "utc_hour now = (now div 3600) mod 24"

subsection \<open>class MCPCostBreaker\<close>

text \<open>
  The dictionary an MCP operation returns. The breaker only ever reads the keys
  \<^verbatim>\<open>"status"\<close> and \<^verbatim>\<open>"daily_cost"\<close>; the other keys of the stub's answers
  (\<^verbatim>\<open>new_total\<close>, \<^verbatim>\<open>log_id\<close>, \<^verbatim>\<open>history\<close>) are never read and are left out.
  A key that is absent is \<open>None\<close>.
\<close>

record mcp_reply =
  reply_status :: "string option"
  reply_daily_cost :: "rat option"

text \<open>
  \<^verbatim>\<open>self.mcp\<close> is an attribute of the breaker: a tool interface taking the tool name and
  the operation (the parameter dictionary only travels to the tool).
\<close>

type_synonym mcp_tool = "string \<Rightarrow> string \<Rightarrow> py_error + mcp_reply"

definition redis_operation :: "string \<Rightarrow> mcp_reply" where
  "redis_operation operation =
     (if operation = ''increment_cost''
        then \<lparr>reply_status = Some ''success'', reply_daily_cost = None\<rparr>
      else if operation = ''get_daily_cost''
        then \<lparr>reply_status = Some ''success'', reply_daily_cost = Some (12545 / 100)\<rparr>
      else \<lparr>reply_status = Some ''success'', reply_daily_cost = None\<rparr>)"

definition supabase_operation :: "string \<Rightarrow> mcp_reply" where
  "supabase_operation operation =
     (if operation = ''log_cost_event''
        then \<lparr>reply_status = Some ''success'', reply_daily_cost = None\<rparr>
      else if operation = ''get_cost_history''
        then \<lparr>reply_status = Some ''success'', reply_daily_cost = None\<rparr>
      else \<lparr>reply_status = Some ''success'', reply_daily_cost = None\<rparr>)"

definition call_mcp_tool :: mcp_tool where
  "call_mcp_tool tool_name operation =
     (if tool_name = ''redis'' then Inr (redis_operation operation)
      else if tool_name = ''supabase'' then Inr (supabase_operation operation)
      else Inl (ValueError ''Unsupported MCP tool''))"

subsection \<open>class CostViolationType and the breaker's data\<close>

datatype CostViolationType =
    PER_EVENT_EXCEEDED
  | DAILY_LIMIT_EXCEEDED
  | HOURLY_RATE_EXCEEDED
  | SUSPICIOUS_PATTERN
  | EMERGENCY_SHUTDOWN

text \<open>
  An entry of \<^verbatim>\<open>self.violation_history\<close>. Of the dictionary's keys the breaker reads
  back \<^verbatim>\<open>"type"\<close>, \<^verbatim>\<open>"timestamp"\<close> and \<^verbatim>\<open>.get("estimated_cost", 0)\<close>; the shutdown
  event has no \<^verbatim>\<open>"estimated_cost"\<close> key.
\<close>

record cost_violation =
  v_type :: CostViolationType
  v_estimated_cost :: "rat option"
  v_timestamp :: nat

text \<open>
  The two f-strings that \<^verbatim>\<open>_trigger_emergency_shutdown\<close> receives, each with the amount
  it formats.
\<close>

datatype shutdown_message =
    Projection_exceeds_emergency_threshold rat
  | Emergency_threshold_exceeded rat

record breaker =
  daily_limit :: rat
  per_event_limit :: rat
  hourly_limit :: rat
  emergency_threshold :: rat
  daily_cost :: rat
  hourly_cost :: rat
  current_hour :: nat
  last_reset :: nat
  is_shutdown :: bool
  shutdown_reason :: "shutdown_message option"
  violation_history :: "cost_violation list"
  mcp :: mcp_tool

text \<open>\<^verbatim>\<open>CostCircuitBreaker.__init__\<close>, constructed at time \<open>now\<close>.\<close>

definition init_breaker :: "nat \<Rightarrow> rat \<Rightarrow> rat \<Rightarrow> rat \<Rightarrow> rat \<Rightarrow> breaker" where
  "init_breaker now daily_limit' per_event_limit' hourly_limit' emergency_threshold' =
     \<lparr>daily_limit = daily_limit',
      per_event_limit = per_event_limit',
      hourly_limit = hourly_limit',
      emergency_threshold = emergency_threshold',
      daily_cost = 0,
      hourly_cost = 0,
      current_hour = utc_hour now,
      last_reset = utc_date now,
      is_shutdown = False,
      shutdown_reason = None,
      violation_history = [],
      mcp = call_mcp_tool\<rparr>"

text \<open>The default arguments of the constructor.\<close>

definition default_breaker :: "nat \<Rightarrow> breaker" where
  "default_breaker now = init_breaker now 1000 (5 / 100) 100 2000"

text \<open>The dictionary of \<^verbatim>\<open>_get_current_costs\<close>.\<close>

record current_costs =
  cc_daily_cost :: rat
  cc_daily_limit :: rat
  cc_daily_remaining :: rat
  cc_hourly_cost :: rat
  cc_hourly_limit :: rat
  cc_hourly_remaining :: rat
  cc_per_event_limit :: rat
  cc_emergency_threshold :: rat

definition get_current_costs :: "breaker \<Rightarrow> current_costs" where
  "get_current_costs s =
     \<lparr>cc_daily_cost = daily_cost s,
      cc_daily_limit = daily_limit s,
      cc_daily_remaining = max 0 (daily_limit s - daily_cost s),
      cc_hourly_cost = hourly_cost s,
      cc_hourly_limit = hourly_limit s,
      cc_hourly_remaining = max 0 (hourly_limit s - hourly_cost s),
      cc_per_event_limit = per_event_limit s,
      cc_emergency_threshold = emergency_threshold s\<rparr>"

text \<open>
  The \<^verbatim>\<open>"reason"\<close> message of a decision: one constructor per f-string of
  \<^verbatim>\<open>check_cost_approval\<close>, with the values it formats.
\<close>

datatype decision_reason =
    System_in_emergency_shutdown "shutdown_message option"
  | Per_event_cost_limit_exceeded rat rat
  | Daily_cost_limit_would_be_exceeded rat rat
  | Hourly_rate_limit_would_be_exceeded rat rat
  | Cost_approval_granted
  | Cost_breaker_system_error py_error

record decision =
  approved :: bool
  reason :: decision_reason
  costs :: current_costs
  warnings :: "string list"

subsection \<open>The private methods\<close>

text \<open>
  \<^verbatim>\<open>_update_cost_tracking\<close>: the lazy window reset, then the daily total is replaced by
  the store's figure when the tool answers with status success. An exception of the tool
  is caught and logged, after the resets.
\<close>

definition update_cost_tracking :: "nat \<Rightarrow> breaker \<Rightarrow> breaker" where
  "update_cost_tracking now s =
     (let current_date = utc_date now;
          hour_now = utc_hour now;
          s1 = (if current_date > last_reset s
                then s\<lparr>daily_cost := 0, last_reset := current_date\<rparr> else s);
          s2 = (if hour_now \<noteq> current_hour s1
                then s1\<lparr>hourly_cost := 0, current_hour := hour_now\<rparr> else s1)
      in case mcp s2 ''redis'' ''get_daily_cost'' of
           Inl e \<Rightarrow> s2
         | Inr daily_result \<Rightarrow>
             if reply_status daily_result = Some ''success''
             then s2\<lparr>daily_cost :=
                      (case reply_daily_cost daily_result of None \<Rightarrow> 0 | Some d \<Rightarrow> d)\<rparr>
             else s2)"

text \<open>
  \<^verbatim>\<open>_log_cost_violation\<close>: append, keep the last 100. The tool call and
  \<^verbatim>\<open>_alert_administrators\<close> that follow only log; an exception there is caught and
  changes nothing of the breaker.
\<close>

definition log_cost_violation :: "cost_violation \<Rightarrow> breaker \<Rightarrow> breaker" where
  "log_cost_violation violation s =
     (let h = violation_history s @ [violation]
      in s\<lparr>violation_history := (if length h > 100 then drop (length h - 100) h else h)\<rparr>)"

text \<open>
  \<^verbatim>\<open>_trigger_emergency_shutdown\<close>: the two assignments come first; the logging,
  publishing and alerting after them cannot undo them.
\<close>

definition trigger_emergency_shutdown :: "nat \<Rightarrow> shutdown_message \<Rightarrow> breaker \<Rightarrow> breaker" where
  "trigger_emergency_shutdown now msg s =
     log_cost_violation
       \<lparr>v_type = EMERGENCY_SHUTDOWN, v_estimated_cost = None, v_timestamp = now\<rparr>
       (s\<lparr>is_shutdown := True, shutdown_reason := Some msg\<rparr>)"

text \<open>
  \<^verbatim>\<open>_detect_suspicious_patterns\<close>. \<^verbatim>\<open>timedelta.seconds\<close> is the seconds component of the
  normalised difference, between 0 and 86399.
\<close>

definition detect_suspicious_patterns :: "nat \<Rightarrow> rat \<Rightarrow> string \<Rightarrow> breaker \<Rightarrow> string option" where
  "detect_suspicious_patterns now estimated_cost operation_type s =
     (let h = violation_history s;
          recent_expensive =
            filter (\<lambda>v. (int now - int (v_timestamp v)) mod 86400 < 300) (drop (length h - 10) h);
          recent_costs =
            map (\<lambda>v. case v_estimated_cost v of None \<Rightarrow> 0 | Some c \<Rightarrow> c) (drop (length h - 5) h)
      in if estimated_cost > per_event_limit s * (8 / 10) \<and> length recent_expensive > 3
           then Some ''HIGH_FREQUENCY_EXPENSIVE_OPERATIONS''
         else if length h > 5 \<and> list_all (\<lambda>c. c > per_event_limit s * (5 / 10)) recent_costs
           then Some ''RAPID_COST_ESCALATION''
         else None)"

subsection \<open>The public methods\<close>

text \<open>
  \<^verbatim>\<open>check_cost_approval\<close> returns the decision and the breaker after the call. With
  rational costs no statement of its \<^verbatim>\<open>try\<close> block raises (each helper catches its own
  exceptions), so the final \<^verbatim>\<open>except\<close> branch (\<^verbatim>\<open>"SYSTEM_ERROR"\<close>) is never entered.
\<close>

definition check_cost_approval ::
  "nat \<Rightarrow> rat \<Rightarrow> string \<Rightarrow> (string \<times> string) list \<Rightarrow> breaker \<Rightarrow> decision \<times> breaker" where
  "check_cost_approval now estimated_cost operation_type context s =
     (if is_shutdown s then
        (\<lparr>approved = False,
          reason = System_in_emergency_shutdown (shutdown_reason s),
          costs = get_current_costs s,
          warnings = [''EMERGENCY_SHUTDOWN_ACTIVE'']\<rparr>, s)
      else
        let s1 = update_cost_tracking now s in
        if estimated_cost > per_event_limit s1 then
          (let s2 = log_cost_violation
                      \<lparr>v_type = PER_EVENT_EXCEEDED, v_estimated_cost = Some estimated_cost,
                       v_timestamp = now\<rparr> s1
           in (\<lparr>approved = False,
                reason = Per_event_cost_limit_exceeded estimated_cost (per_event_limit s2),
                costs = get_current_costs s2,
                warnings = [''PER_EVENT_LIMIT_EXCEEDED'']\<rparr>, s2))
        else
          let projected_daily = daily_cost s1 + estimated_cost in
          if projected_daily > daily_limit s1 then
            (let s2 = log_cost_violation
                        \<lparr>v_type = DAILY_LIMIT_EXCEEDED, v_estimated_cost = Some estimated_cost,
                         v_timestamp = now\<rparr> s1;
                 s3 = (if projected_daily > emergency_threshold s2
                       then trigger_emergency_shutdown now
                              (Projection_exceeds_emergency_threshold projected_daily) s2
                       else s2)
             in (\<lparr>approved = False,
                  reason = Daily_cost_limit_would_be_exceeded projected_daily (daily_limit s3),
                  costs = get_current_costs s3,
                  warnings = [''DAILY_LIMIT_EXCEEDED'']\<rparr>, s3))
          else
            let projected_hourly = hourly_cost s1 + estimated_cost in
            if projected_hourly > hourly_limit s1 then
              (let s2 = log_cost_violation
                          \<lparr>v_type = HOURLY_RATE_EXCEEDED, v_estimated_cost = Some estimated_cost,
                           v_timestamp = now\<rparr> s1
               in (\<lparr>approved = False,
                    reason = Hourly_rate_limit_would_be_exceeded projected_hourly (hourly_limit s2),
                    costs = get_current_costs s2,
                    warnings = [''HOURLY_RATE_EXCEEDED'']\<rparr>, s2))
            else
              (let pattern_warning = detect_suspicious_patterns now estimated_cost operation_type s1
               in (\<lparr>approved = True,
                    reason = Cost_approval_granted,
                    costs = get_current_costs s1,
                    warnings = (case pattern_warning of None \<Rightarrow> [] | Some w \<Rightarrow> [w])\<rparr>, s1)))"

text \<open>
  \<^verbatim>\<open>record_actual_cost\<close>: the totals are updated first; an exception of either tool call
  is caught and logged, and then the emergency test after them is skipped.
\<close>

definition record_actual_cost :: "nat \<Rightarrow> rat \<Rightarrow> string \<Rightarrow> breaker \<Rightarrow> breaker" where
  "record_actual_cost now actual_cost operation_type s =
     (let s1 = s\<lparr>daily_cost := daily_cost s + actual_cost,
                 hourly_cost := hourly_cost s + actual_cost\<rparr>
      in case mcp s1 ''redis'' ''increment_cost'' of
           Inl e \<Rightarrow> s1
         | Inr r1 \<Rightarrow>
            (case mcp s1 ''supabase'' ''log_cost_event'' of
               Inl e \<Rightarrow> s1
             | Inr r2 \<Rightarrow>
                 if daily_cost s1 > emergency_threshold s1
                 then trigger_emergency_shutdown now
                        (Emergency_threshold_exceeded (daily_cost s1)) s1
                 else s1))"

datatype reset_message =
    Invalid_administrative_key
  | Circuit_breaker_reset_successfully
  | Reset_failed py_error

record reset_result =
  success :: bool
  reset_reason :: reset_message

definition reset_circuit_breaker :: "string \<Rightarrow> string \<Rightarrow> breaker \<Rightarrow> reset_result \<times> breaker" where
  "reset_circuit_breaker admin_key why s =
     (if admin_key \<noteq> ''admin_reset_key_placeholder'' then
        (\<lparr>success = False, reset_reason = Invalid_administrative_key\<rparr>, s)
      else
        let s1 = s\<lparr>is_shutdown := False, shutdown_reason := None\<rparr>
        in case mcp s1 ''supabase'' ''log_admin_action'' of
             Inl e \<Rightarrow> (\<lparr>success = False, reset_reason = Reset_failed e\<rparr>, s1)
           | Inr r \<Rightarrow> (\<lparr>success = True, reset_reason = Circuit_breaker_reset_successfully\<rparr>, s1))"

subsection \<open>Sequences of calls\<close>

text \<open>A call of the public API, and a client that issues calls one after the other, each
  at its own time.\<close>

datatype breaker_call =
    Check rat string
  | Record rat string
  | Reset string string

fun do_call :: "nat \<times> breaker_call \<Rightarrow> breaker \<Rightarrow> breaker" where
  "do_call (now, Check estimated_cost operation_type) s =
     snd (check_cost_approval now estimated_cost operation_type [] s)"
| "do_call (now, Record actual_cost operation_type) s =
     record_actual_cost now actual_cost operation_type s"
| "do_call (now, Reset admin_key why) s =
     snd (reset_circuit_breaker admin_key why s)"

fun run_calls :: "(nat \<times> breaker_call) list \<Rightarrow> breaker \<Rightarrow> breaker" where
  "run_calls [] s = s"
| "run_calls (c # cs) s = run_calls cs (do_call c s)"

fun authorized_reset :: "breaker_call \<Rightarrow> bool" where
  "authorized_reset (Reset admin_key why) = (admin_key = ''admin_reset_key_placeholder'')"
| "authorized_reset (Check estimated_cost operation_type) = False"
| "authorized_reset (Record actual_cost operation_type) = False"

section \<open>The violation tracker (src/core/security/violation\_tracker.py)\<close>

subsection \<open>Enums and dataclasses\<close>

datatype ViolationSeverity = LOW | MEDIUM | HIGH | CRITICAL

datatype EnforcementAction =
    WARNING
  | CONTENT_BLOCK
  | MESSAGING_RESTRICTION
  | ACCOUNT_SUSPENSION
  | PERMANENT_BAN
  | ADMIN_ALERT

text \<open>The \<^verbatim>\<open>.value\<close> of an enum member, and the enum's constructor from a value, which
  raises \<^verbatim>\<open>ValueError\<close> on any other string.\<close>

fun severity_value :: "ViolationSeverity \<Rightarrow> string" where
  "severity_value LOW = ''low''"
| "severity_value MEDIUM = ''medium''"
| "severity_value HIGH = ''high''"
| "severity_value CRITICAL = ''critical''"

definition ViolationSeverity_of :: "string \<Rightarrow> py_error + ViolationSeverity" where
  "ViolationSeverity_of v =
     (if v = ''low'' then Inr LOW
      else if v = ''medium'' then Inr MEDIUM
      else if v = ''high'' then Inr HIGH
      else if v = ''critical'' then Inr CRITICAL
      else Inl (ValueError v))"

fun action_value :: "EnforcementAction \<Rightarrow> string" where
  "action_value WARNING = ''warning''"
| "action_value CONTENT_BLOCK = ''content_block''"
| "action_value MESSAGING_RESTRICTION = ''messaging_restriction''"
| "action_value ACCOUNT_SUSPENSION = ''account_suspension''"
| "action_value PERMANENT_BAN = ''permanent_ban''"
| "action_value ADMIN_ALERT = ''admin_alert''"

definition EnforcementAction_of :: "string \<Rightarrow> py_error + EnforcementAction" where
  "EnforcementAction_of v =
     (if v = ''warning'' then Inr WARNING
      else if v = ''content_block'' then Inr CONTENT_BLOCK
      else if v = ''messaging_restriction'' then Inr MESSAGING_RESTRICTION
      else if v = ''account_suspension'' then Inr ACCOUNT_SUSPENSION
      else if v = ''permanent_ban'' then Inr PERMANENT_BAN
      else if v = ''admin_alert'' then Inr ADMIN_ALERT
      else Inl (ValueError v))"

text \<open>\<^verbatim>\<open>ViolationRecord\<close>; the timestamp is the number of seconds it denotes.\<close>

record violation_record =
  vr_id :: string
  vr_user_id :: string
  vr_violation_type :: string
  vr_severity :: ViolationSeverity
  vr_content :: string
  vr_detection_method :: string
  vr_timestamp :: nat
  vr_action_taken :: EnforcementAction
  vr_escalation_level :: int
  vr_resolved :: bool

text \<open>\<^verbatim>\<open>UserViolationProfile\<close>.\<close>

record user_violation_profile =
  up_user_id :: string
  up_total_violations :: nat
  up_escalation_level :: int
  up_last_violation :: "nat option"
  up_account_status :: string
  up_violations :: "violation_record list"

subsection \<open>The MCP client\<close>

text \<open>
  The calls the tracker makes through \<^verbatim>\<open>mcp.call_tool(tool_name, args)\<close>: the tool is
  \<^verbatim>\<open>"supabase"\<close> with one of three SQL statements, or \<^verbatim>\<open>"redis"\<close> with one of four
  commands. The dictionaries sent as \<^verbatim>\<open>fields\<close> are kept by what they are built from.
\<close>

datatype sql_statement =
    Select_security_violations string
  | Insert_security_violation violation_record
  | Insert_user_ban string nat

datatype redis_fields =
    Warning_message violation_record
  | Alert_data violation_record
  | Restriction_data "nat option" nat
  | Suspension_data "nat option" nat
  | Ban_data nat

datatype redis_command =
    Xadd string redis_fields
  | Hset string redis_fields
  | Expire string nat
  | Hgetall string

datatype tool_call = Supabase sql_statement | Redis redis_command

text \<open>
  A row of \<^verbatim>\<open>security_violations\<close> as the SELECT returns it: severity and action are the
  stored strings, the timestamp is \<open>None\<close> when \<^verbatim>\<open>datetime.fromisoformat\<close> rejects the
  stored string.
\<close>

record raw_row =
  row_id :: string
  row_violation_type :: string
  row_severity :: string
  row_action_taken :: string
  row_escalation_level :: int
  row_timestamp :: "nat option"
  row_resolved :: bool

text \<open>
  What a tool call returns: \<^verbatim>\<open>None\<close>, a list of rows, or a hash whose values are kept
  by their truth value.
\<close>

datatype tool_reply =
    No_reply
  | Rows "raw_row list"
  | Hash "(string \<times> bool) list"

text \<open>
  The module's \<^verbatim>\<open>mcp\<close> object is a global that the deployment replaces; the model takes
  it as a parameter. A client answers a call, or raises, as a function of the calls made
  before it: any deterministic store is such a function. The list of calls made so far is the
  state that the tracker's methods pass along.
\<close>

type_synonym mcp_client = "tool_call list \<Rightarrow> tool_call \<Rightarrow> py_error + tool_reply"

definition call_tool ::
  "mcp_client \<Rightarrow> tool_call \<Rightarrow> tool_call list \<Rightarrow> (py_error + tool_reply) \<times> tool_call list" where
  "call_tool client c h = (client h c, h @ [c])"

text \<open>\<^verbatim>\<open>MCPClient.call_tool\<close> of this module: its body is \<^verbatim>\<open>pass\<close>.\<close>

definition MCPClient :: mcp_client where
  "MCPClient h c = Inr No_reply"

subsection \<open>class ViolationTracker: configuration\<close>

record escalation_rule =
  rule_action :: EnforcementAction
  rule_duration_hours :: "nat option"
  rule_description :: string

definition escalation_rules :: "(int \<times> escalation_rule) list" where
  "escalation_rules =
     [(1, \<lparr>rule_action = WARNING, rule_duration_hours = None,
            rule_description = ''First violation - warning issued''\<rparr>),
      (2, \<lparr>rule_action = MESSAGING_RESTRICTION, rule_duration_hours = Some 24,
            rule_description = ''Second violation - 24h messaging restriction''\<rparr>),
      (3, \<lparr>rule_action = ACCOUNT_SUSPENSION, rule_duration_hours = Some 168,
            rule_description = ''Third violation - 1 week account suspension''\<rparr>),
      (4, \<lparr>rule_action = PERMANENT_BAN, rule_duration_hours = None,
            rule_description = ''Fourth violation - permanent ban''\<rparr>)]"

fun severity_multipliers :: "ViolationSeverity \<Rightarrow> int" where
  "severity_multipliers LOW = 1"
| "severity_multipliers MEDIUM = 2"
| "severity_multipliers HIGH = 3"
| "severity_multipliers CRITICAL = 5"

record tracker_metrics =
  violations_processed :: nat
  users_warned :: nat
  users_restricted :: nat
  users_suspended :: nat
  users_banned :: nat
  false_positives :: nat

definition init_tracker_metrics :: tracker_metrics where
  "init_tracker_metrics =
     \<lparr>violations_processed = 0, users_warned = 0, users_restricted = 0,
      users_suspended = 0, users_banned = 0, false_positives = 0\<rparr>"

subsection \<open>Loading the profile\<close>

text \<open>The keyword arguments of \<^verbatim>\<open>ViolationRecord(...)\<close> in the loop, evaluated in order.\<close>

definition row_to_violation :: "string \<Rightarrow> raw_row \<Rightarrow> py_error + violation_record" where
  "row_to_violation user_id row =
     (case ViolationSeverity_of (row_severity row) of
        Inl e \<Rightarrow> Inl e
      | Inr sev \<Rightarrow>
         (case row_timestamp row of
            None \<Rightarrow> Inl (ValueError ''Invalid isoformat string'')
          | Some ts \<Rightarrow>
             (case EnforcementAction_of (row_action_taken row) of
                Inl e \<Rightarrow> Inl e
              | Inr act \<Rightarrow>
                  Inr \<lparr>vr_id = row_id row,
                       vr_user_id = user_id,
                       vr_violation_type = row_violation_type row,
                       vr_severity = sev,
                       vr_content = ''[STORED_CONTENT]'',
                       vr_detection_method = ''stored'',
                       vr_timestamp = ts,
                       vr_action_taken = act,
                       vr_escalation_level = row_escalation_level row,
                       vr_resolved = row_resolved row\<rparr>)))"

text \<open>
  The \<^verbatim>\<open>for row in result\<close> loop with its three accumulators: the list of violations,
  the highest escalation level and the most recent timestamp.
\<close>

fun load_rows ::
  "string \<Rightarrow> raw_row list \<Rightarrow> violation_record list \<times> int \<times> nat option \<Rightarrow>
   py_error + (violation_record list \<times> int \<times> nat option)" where
  "load_rows user_id [] acc = Inr acc"
| "load_rows user_id (row # rows) (violations, current_escalation_level, last_violation) =
     (case row_to_violation user_id row of
        Inl e \<Rightarrow> Inl e
      | Inr violation \<Rightarrow>
          load_rows user_id rows
            (violations @ [violation],
             (if vr_escalation_level violation > current_escalation_level
              then vr_escalation_level violation else current_escalation_level),
             (case last_violation of
                None \<Rightarrow> Some (vr_timestamp violation)
              | Some l \<Rightarrow> if vr_timestamp violation > l
                          then Some (vr_timestamp violation) else Some l)))"

text \<open>
  \<^verbatim>\<open>if result:\<close> and the iteration: \<^verbatim>\<open>None\<close>, an empty list and an empty hash are
  falsy; iterating a non-empty hash yields its keys, and \<^verbatim>\<open>row["id"]\<close> on a key raises.
\<close>

definition result_rows :: "tool_reply \<Rightarrow> py_error + raw_row list" where
  "result_rows result =
     (case result of
        No_reply \<Rightarrow> Inr []
      | Rows rows \<Rightarrow> Inr rows
      | Hash kvs \<Rightarrow> (if kvs = [] then Inr [] else Inl (TypeError ''string indices must be integers'')))"

text \<open>\<^verbatim>\<open>x and x.get(field)\<close> on the answer of \<^verbatim>\<open>hgetall\<close>.\<close>

definition truthy_get :: "tool_reply \<Rightarrow> string \<Rightarrow> py_error + bool" where
  "truthy_get reply field =
     (case reply of
        No_reply \<Rightarrow> Inr False
      | Rows rows \<Rightarrow> (if rows = [] then Inr False else Inl (AttributeError ''get''))
      | Hash kvs \<Rightarrow> Inr (kvs \<noteq> [] \<and> map_of kvs field = Some True))"

text \<open>\<^verbatim>\<open>_get_account_status\<close>: any exception is caught and gives \<^verbatim>\<open>"unknown"\<close>.\<close>

definition get_account_status ::
  "mcp_client \<Rightarrow> string \<Rightarrow> int \<Rightarrow> tool_call list \<Rightarrow> string \<times> tool_call list" where
  "get_account_status client user_id escalation_level h =
     (case call_tool client (Redis (Hgetall (''user:restrictions:'' @ user_id))) h of
        (Inl e, h1) \<Rightarrow> (''unknown'', h1)
      | (Inr restriction, h1) \<Rightarrow>
         (case truthy_get restriction ''restricted'' of
            Inl e \<Rightarrow> (''unknown'', h1)
          | Inr True \<Rightarrow> (''restricted'', h1)
          | Inr False \<Rightarrow>
             (case call_tool client (Redis (Hgetall (''user:suspension:'' @ user_id))) h1 of
                (Inl e, h2) \<Rightarrow> (''unknown'', h2)
              | (Inr suspension, h2) \<Rightarrow>
                 (case truthy_get suspension ''suspended'' of
                    Inl e \<Rightarrow> (''unknown'', h2)
                  | Inr True \<Rightarrow> (''suspended'', h2)
                  | Inr False \<Rightarrow>
                     (case call_tool client (Redis (Hgetall (''user:ban:'' @ user_id))) h2 of
                        (Inl e, h3) \<Rightarrow> (''unknown'', h3)
                      | (Inr ban, h3) \<Rightarrow>
                         (case truthy_get ban ''banned'' of
                            Inl e \<Rightarrow> (''unknown'', h3)
                          | Inr True \<Rightarrow> (''banned'', h3)
                          | Inr False \<Rightarrow> (''active'', h3)))))))"

text \<open>The profile of the \<^verbatim>\<open>except\<close> branch of \<^verbatim>\<open>get_user_violation_profile\<close>.\<close>

definition default_profile :: "string \<Rightarrow> user_violation_profile" where
  "default_profile user_id =
     \<lparr>up_user_id = user_id,
      up_total_violations = 0,
      up_escalation_level = 0,
      up_last_violation = None,
      up_account_status = ''active'',
      up_violations = []\<rparr>"

definition get_user_violation_profile ::
  "mcp_client \<Rightarrow> string \<Rightarrow> tool_call list \<Rightarrow> user_violation_profile \<times> tool_call list" where
  "get_user_violation_profile client user_id h =
     (case call_tool client (Supabase (Select_security_violations user_id)) h of
        (Inl e, h1) \<Rightarrow> (default_profile user_id, h1)
      | (Inr result, h1) \<Rightarrow>
         (case result_rows result of
            Inl e \<Rightarrow> (default_profile user_id, h1)
          | Inr rows \<Rightarrow>
             (case load_rows user_id rows ([], 0, None) of
                Inl e \<Rightarrow> (default_profile user_id, h1)
              | Inr (violations, current_escalation_level, last_violation) \<Rightarrow>
                 (case get_account_status client user_id current_escalation_level h1 of
                    (account_status, h2) \<Rightarrow>
                      (\<lparr>up_user_id = user_id,
                        up_total_violations = length violations,
                        up_escalation_level = current_escalation_level,
                        up_last_violation = last_violation,
                        up_account_status = account_status,
                        up_violations = violations\<rparr>, h2)))))"

subsection \<open>Storing and enforcing\<close>

text \<open>\<^verbatim>\<open>_store_violation_record\<close>: an exception of the INSERT is caught and logged, and
  the method returns \<^verbatim>\<open>False\<close>.\<close>

definition store_violation_record ::
  "mcp_client \<Rightarrow> violation_record \<Rightarrow> tool_call list \<Rightarrow> bool \<times> tool_call list" where
  "store_violation_record client violation h =
     (case call_tool client (Supabase (Insert_security_violation violation)) h of
        (Inl e, h1) \<Rightarrow> (False, h1)
      | (Inr r, h1) \<Rightarrow> (True, h1))"

definition send_warning_message ::
  "mcp_client \<Rightarrow> violation_record \<Rightarrow> tool_call list \<Rightarrow> bool \<times> tool_call list" where
  "send_warning_message client violation h =
     (case call_tool client (Redis (Xadd ''notifications:user_warnings'' (Warning_message violation))) h of
        (Inl e, h1) \<Rightarrow> (False, h1)
      | (Inr r, h1) \<Rightarrow> (True, h1))"

text \<open>\<^verbatim>\<open>if duration_hours:\<close> holds for a duration that is neither \<^verbatim>\<open>None\<close> nor 0.\<close>

definition truthy_hours :: "nat option \<Rightarrow> bool" where
  "truthy_hours duration_hours = (case duration_hours of None \<Rightarrow> False | Some d \<Rightarrow> d \<noteq> 0)"

definition hours :: "nat option \<Rightarrow> nat" where
  "hours duration_hours = (case duration_hours of None \<Rightarrow> 0 | Some d \<Rightarrow> d)"

definition expiry_time :: "nat \<Rightarrow> nat option \<Rightarrow> nat option" where
  "expiry_time now duration_hours =
     (if truthy_hours duration_hours then Some (now + hours duration_hours * 3600) else None)"

definition restrict_messaging ::
  "mcp_client \<Rightarrow> nat \<Rightarrow> string \<Rightarrow> nat option \<Rightarrow> tool_call list \<Rightarrow> bool \<times> tool_call list" where
  "restrict_messaging client now user_id duration_hours h =
     (case call_tool client
             (Redis (Hset (''user:restrictions:'' @ user_id)
                      (Restriction_data (expiry_time now duration_hours) now))) h of
        (Inl e, h1) \<Rightarrow> (False, h1)
      | (Inr r, h1) \<Rightarrow>
          if truthy_hours duration_hours then
            (case call_tool client
                    (Redis (Expire (''user:restrictions:'' @ user_id)
                             (hours duration_hours * 3600))) h1 of
               (Inl e, h2) \<Rightarrow> (False, h2)
             | (Inr r2, h2) \<Rightarrow> (True, h2))
          else (True, h1))"

definition suspend_account ::
  "mcp_client \<Rightarrow> nat \<Rightarrow> string \<Rightarrow> nat option \<Rightarrow> tool_call list \<Rightarrow> bool \<times> tool_call list" where
  "suspend_account client now user_id duration_hours h =
     (case call_tool client
             (Redis (Hset (''user:suspension:'' @ user_id)
                      (Suspension_data (expiry_time now duration_hours) now))) h of
        (Inl e, h1) \<Rightarrow> (False, h1)
      | (Inr r, h1) \<Rightarrow>
          if truthy_hours duration_hours then
            (case call_tool client
                    (Redis (Expire (''user:suspension:'' @ user_id)
                             (hours duration_hours * 3600))) h1 of
               (Inl e, h2) \<Rightarrow> (False, h2)
             | (Inr r2, h2) \<Rightarrow> (True, h2))
          else (True, h1))"

definition ban_account_permanently ::
  "mcp_client \<Rightarrow> nat \<Rightarrow> string \<Rightarrow> tool_call list \<Rightarrow> bool \<times> tool_call list" where
  "ban_account_permanently client now user_id h =
     (case call_tool client (Redis (Hset (''user:ban:'' @ user_id) (Ban_data now))) h of
        (Inl e, h1) \<Rightarrow> (False, h1)
      | (Inr r, h1) \<Rightarrow>
         (case call_tool client (Supabase (Insert_user_ban user_id now)) h1 of
            (Inl e, h2) \<Rightarrow> (False, h2)
          | (Inr r2, h2) \<Rightarrow> (True, h2)))"

definition send_admin_alert ::
  "mcp_client \<Rightarrow> violation_record \<Rightarrow> tool_call list \<Rightarrow> bool \<times> tool_call list" where
  "send_admin_alert client violation h =
     (case call_tool client (Redis (Xadd ''admin:security_alerts'' (Alert_data violation))) h of
        (Inl e, h1) \<Rightarrow> (False, h1)
      | (Inr r, h1) \<Rightarrow> (True, h1))"

text \<open>
  Three methods that \<^verbatim>\<open>ViolationTracker\<close> calls are defined nowhere in the class or in
  the repository: \<^verbatim>\<open>_block_content\<close>, \<^verbatim>\<open>_log_enforcement_action\<close> and
  \<^verbatim>\<open>_update_user_escalation_level\<close>. In Python the attribute lookup
  \<^verbatim>\<open>self._log_enforcement_action\<close> raises \<^verbatim>\<open>AttributeError\<close> before any argument is
  used, and no tool call is made.
\<close>

definition block_content ::
  "mcp_client \<Rightarrow> violation_record \<Rightarrow> tool_call list \<Rightarrow> py_error + (bool \<times> tool_call list)" where
  "block_content client violation h = Inl (AttributeError ''_block_content'')"

definition log_enforcement_action ::
  "mcp_client \<Rightarrow> violation_record \<Rightarrow> EnforcementAction \<Rightarrow> tool_call list \<Rightarrow>
   py_error + (bool \<times> tool_call list)" where
  "log_enforcement_action client violation action h = Inl (AttributeError ''_log_enforcement_action'')"

definition update_user_escalation_level ::
  "mcp_client \<Rightarrow> string \<Rightarrow> int \<Rightarrow> tool_call list \<Rightarrow> py_error + (bool \<times> tool_call list)" where
  "update_user_escalation_level client user_id new_escalation_level h =
     Inl (AttributeError ''_update_user_escalation_level'')"

text \<open>
  \<^verbatim>\<open>_apply_enforcement_action\<close>: the branch of the action, then the audit call; any
  exception is caught and logged, and the method returns \<^verbatim>\<open>False\<close>.
\<close>

definition apply_enforcement_action ::
  "mcp_client \<Rightarrow> nat \<Rightarrow> violation_record \<Rightarrow> user_violation_profile \<Rightarrow> tool_call list \<Rightarrow>
   bool \<times> tool_call list" where
  "apply_enforcement_action client now violation user_profile h =
     (let action = vr_action_taken violation in
      case map_of escalation_rules (vr_escalation_level violation) of
        None \<Rightarrow> (False, h)
      | Some rule \<Rightarrow>
         (let duration_hours = rule_duration_hours rule;
              branch =
                (case action of
                   WARNING \<Rightarrow> Inr (send_warning_message client violation h)
                 | CONTENT_BLOCK \<Rightarrow> block_content client violation h
                 | MESSAGING_RESTRICTION \<Rightarrow>
                     Inr (restrict_messaging client now (vr_user_id violation) duration_hours h)
                 | ACCOUNT_SUSPENSION \<Rightarrow>
                     Inr (suspend_account client now (vr_user_id violation) duration_hours h)
                 | PERMANENT_BAN \<Rightarrow>
                     Inr (ban_account_permanently client now (vr_user_id violation) h)
                 | ADMIN_ALERT \<Rightarrow> Inr (True, h))
          in case branch of
               Inl e \<Rightarrow> (False, h)
             | Inr (done, h1) \<Rightarrow>
                (case log_enforcement_action client violation action h1 of
                   Inl e \<Rightarrow> (False, h1)
                 | Inr (logged, h2) \<Rightarrow> (True, h2))))"

definition update_action_metrics :: "EnforcementAction \<Rightarrow> tracker_metrics \<Rightarrow> tracker_metrics" where
  "update_action_metrics action m =
     (case action of
        WARNING \<Rightarrow> m\<lparr>users_warned := users_warned m + 1\<rparr>
      | MESSAGING_RESTRICTION \<Rightarrow> m\<lparr>users_restricted := users_restricted m + 1\<rparr>
      | ACCOUNT_SUSPENSION \<Rightarrow> m\<lparr>users_suspended := users_suspended m + 1\<rparr>
      | PERMANENT_BAN \<Rightarrow> m\<lparr>users_banned := users_banned m + 1\<rparr>
      | CONTENT_BLOCK \<Rightarrow> m
      | ADMIN_ALERT \<Rightarrow> m)"

subsection \<open>process\_violation\<close>

text \<open>
  The record that \<^verbatim>\<open>process_violation\<close> builds from the loaded profile: the new level is
  the profile's level plus the severity points, capped at the highest key of the ladder; the
  action is the ladder's entry for that level (a \<^verbatim>\<open>KeyError\<close> when there is none). The
  identifier is the fresh \<^verbatim>\<open>uuid4\<close>, a parameter.
\<close>

definition new_violation_record ::
  "string \<Rightarrow> nat \<Rightarrow> string \<Rightarrow> string \<Rightarrow> string \<Rightarrow> ViolationSeverity \<Rightarrow> string \<Rightarrow>
   user_violation_profile \<Rightarrow> py_error + violation_record" where
  "new_violation_record new_id now user_id violation_type content severity detection_method
     user_profile =
     (let severity_points = severity_multipliers severity;
          new_escalation_level = up_escalation_level user_profile + severity_points;
          new_escalation_level = min new_escalation_level (Max (set (map fst escalation_rules)))
      in case map_of escalation_rules new_escalation_level of
           None \<Rightarrow> Inl KeyError
         | Some rule \<Rightarrow>
             Inr \<lparr>vr_id = new_id,
                  vr_user_id = user_id,
                  vr_violation_type = violation_type,
                  vr_severity = severity,
                  vr_content = take 500 content,
                  vr_detection_method = detection_method,
                  vr_timestamp = now,
                  vr_action_taken = rule_action rule,
                  vr_escalation_level = new_escalation_level,
                  vr_resolved = False\<rparr>)"

text \<open>
  \<^verbatim>\<open>process_violation\<close> returns the record or the exception it re-raises, the metrics and
  the calls made. The results of \<^verbatim>\<open>_store_violation_record\<close> and of
  \<^verbatim>\<open>_apply_enforcement_action\<close> are not looked at.
\<close>

definition process_violation ::
  "mcp_client \<Rightarrow> string \<Rightarrow> nat \<Rightarrow> string \<Rightarrow> string \<Rightarrow> string \<Rightarrow> ViolationSeverity \<Rightarrow> string \<Rightarrow>
   tracker_metrics \<Rightarrow> tool_call list \<Rightarrow>
   (py_error + violation_record) \<times> tracker_metrics \<times> tool_call list" where
  "process_violation client new_id now user_id violation_type content severity detection_method
     metrics h =
     (case get_user_violation_profile client user_id h of
        (user_profile, h1) \<Rightarrow>
         (case new_violation_record new_id now user_id violation_type content severity
                 detection_method user_profile of
            Inl e \<Rightarrow> (Inl e, metrics, h1)
          | Inr violation_record \<Rightarrow>
             (case store_violation_record client violation_record h1 of
                (stored, h2) \<Rightarrow>
                 (case apply_enforcement_action client now violation_record user_profile h2 of
                    (applied, h3) \<Rightarrow>
                     (case update_user_escalation_level client user_id
                             (vr_escalation_level violation_record) h3 of
                        Inl e \<Rightarrow> (Inl e, metrics, h3)
                      | Inr (updated, h4) \<Rightarrow>
                         (let h5 = (if severity = HIGH \<or> severity = CRITICAL
                                    then snd (send_admin_alert client violation_record h4)
                                    else h4);
                              metrics1 = metrics\<lparr>violations_processed :=
                                                   violations_processed metrics + 1\<rparr>;
                              metrics2 = update_action_metrics
                                           (vr_action_taken violation_record) metrics1
                          in (Inr violation_record, metrics2, h5)))))))"

subsection \<open>A reference store and a sequence of reports\<close>

text \<open>
  For the scenarios, a store that does what the two SQL statements on
  \<^verbatim>\<open>security_violations\<close> say: the INSERT adds a row, the SELECT returns the user's rows,
  latest first, at most 50. \<open>down i\<close> says that the store is unavailable for the call
  number \<open>i\<close>, which then raises and stores nothing. The Redis side is not modelled: every
  other call answers \<^verbatim>\<open>None\<close>.
\<close>

fun stored_violations :: "(nat \<Rightarrow> bool) \<Rightarrow> nat \<Rightarrow> tool_call list \<Rightarrow> violation_record list" where
  "stored_violations down i [] = []"
| "stored_violations down i (Supabase (Insert_security_violation r) # cs) =
     (if down i then [] else [r]) @ stored_violations down (Suc i) cs"
| "stored_violations down i (c # cs) = stored_violations down (Suc i) cs"

definition violation_row :: "violation_record \<Rightarrow> raw_row" where
  "violation_row r =
     \<lparr>row_id = vr_id r,
      row_violation_type = vr_violation_type r,
      row_severity = severity_value (vr_severity r),
      row_action_taken = action_value (vr_action_taken r),
      row_escalation_level = vr_escalation_level r,
      row_timestamp = Some (vr_timestamp r),
      row_resolved = vr_resolved r\<rparr>"

definition sql_store :: "(nat \<Rightarrow> bool) \<Rightarrow> mcp_client" where
  "sql_store down h c =
     (if down (length h) then Inl ToolFailure
      else case c of
        Supabase (Select_security_violations user_id) \<Rightarrow>
          Inr (Rows (map violation_row
                 (take 50 (sort_key (\<lambda>r. - int (vr_timestamp r))
                    (filter (\<lambda>r. vr_user_id r = user_id) (stored_violations down 0 h))))))
      | _ \<Rightarrow> Inr No_reply)"



text \<open>
  The first tool call that the branch of \<^verbatim>\<open>_apply_enforcement_action\<close> for the record's
  action issues, when the ladder has an entry for the record's level: the warning
  notification, or the hash that restricts, suspends or bans the user. It is used to say
  what calls a run of \<^verbatim>\<open>process_violation\<close> has made.
\<close>

definition enforcement_call :: "nat \<Rightarrow> violation_record \<Rightarrow> tool_call option" where
  "enforcement_call now violation =
     (case map_of escalation_rules (vr_escalation_level violation) of
        None \<Rightarrow> None
      | Some rule \<Rightarrow>
         (case vr_action_taken violation of
            WARNING \<Rightarrow>
              Some (Redis (Xadd ''notifications:user_warnings'' (Warning_message violation)))
          | CONTENT_BLOCK \<Rightarrow> None
          | MESSAGING_RESTRICTION \<Rightarrow>
              Some (Redis (Hset (''user:restrictions:'' @ vr_user_id violation)
                            (Restriction_data (expiry_time now (rule_duration_hours rule)) now)))
          | ACCOUNT_SUSPENSION \<Rightarrow>
              Some (Redis (Hset (''user:suspension:'' @ vr_user_id violation)
                            (Suspension_data (expiry_time now (rule_duration_hours rule)) now)))
          | PERMANENT_BAN \<Rightarrow>
              Some (Redis (Hset (''user:ban:'' @ vr_user_id violation) (Ban_data now)))
          | ADMIN_ALERT \<Rightarrow> None))"

section \<open>The contact protection filter (src/core/security/contact\_filter.py)\<close>

text \<open>
  Text is ASCII: a \<open>string\<close> is a list of bytes, so the emoji alternatives in the ninth
  phone pattern cannot occur, and \<^verbatim>\<open>\d\<close>, \<^verbatim>\<open>\w\<close>, \<^verbatim>\<open>\s\<close> and \<^verbatim>\<open>str.lower\<close> are
  their ASCII parts.
\<close>

subsection \<open>Characters\<close>

definition lowercase :: string where
  "lowercase = ''abcdefghijklmnopqrstuvwxyz''"

definition uppercase :: string where
  "uppercase = ''ABCDEFGHIJKLMNOPQRSTUVWXYZ''"

definition digits :: string where
  "digits = ''0123456789''"

definition is_digit :: "char \<Rightarrow> bool" where
  "is_digit c = (c \<in> set digits)"

definition is_alpha :: "char \<Rightarrow> bool" where
  "is_alpha c = (c \<in> set lowercase \<or> c \<in> set uppercase)"

text \<open>\<^verbatim>\<open>\w\<close>: letters, digits and the underscore.\<close>

definition is_word :: "char \<Rightarrow> bool" where
  "is_word c = (is_alpha c \<or> is_digit c \<or> c = CHR ''_'')"

text \<open>\<^verbatim>\<open>\s\<close>, and the characters \<^verbatim>\<open>str.strip()\<close> removes: tab, newline, vertical tab, form
  feed, carriage return, the four separators 0x1C to 0x1F, and the space.\<close>

definition is_space :: "char \<Rightarrow> bool" where
  "is_space c = (c \<in> set [CHR 0x09, CHR 0x0A, CHR 0x0B, CHR 0x0C, CHR 0x0D,
                            CHR 0x1C, CHR 0x1D, CHR 0x1E, CHR 0x1F, CHR 0x20])"

definition one_of :: "string \<Rightarrow> char \<Rightarrow> bool" where
  "one_of cs c = (c \<in> set cs)"

definition lower_char :: "char \<Rightarrow> char" where
  "lower_char c = (case map_of (zip uppercase lowercase) c of None \<Rightarrow> c | Some l \<Rightarrow> l)"

definition lower :: "string \<Rightarrow> string" where
  "lower s = map lower_char s"

subsection \<open>The regular expressions of the patterns\<close>

text \<open>
  The fragment of Python's \<^verbatim>\<open>re\<close> syntax that the patterns use: a literal, a greedy
  repetition of a character class between a minimum and an optional maximum number of times,
  a sequence, an ordered alternation, a greedy optional group and the word boundary
  \<^verbatim>\<open>\b\<close>. Matching is the backtracking search of \<^verbatim>\<open>re\<close> under \<^verbatim>\<open>re.IGNORECASE\<close>:
  \<open>rmatch\<close> returns, for a position given by the previous character and the rest of the
  text, the positions where a match can end, in the order in which the search tries them;
  the first one is the match that \<^verbatim>\<open>re\<close> reports. Every character class of the patterns
  contains both cases of each of its letters.
\<close>

datatype regex =
    Lit string
  | Rep "char \<Rightarrow> bool" nat "nat option"
  | Seq "regex list"
  | Alt "regex list"
  | Opt regex
  | Boundary

type_synonym position = "char option \<times> string"

fun match_lit :: "string \<Rightarrow> char option \<Rightarrow> string \<Rightarrow> position list" where
  "match_lit [] prev rest = [(prev, rest)]"
| "match_lit (l # ls) prev [] = []"
| "match_lit (l # ls) prev (c # cs) =
     (if lower_char c = lower_char l then match_lit ls (Some c) cs else [])"

text \<open>All the ways to read 0, 1, 2, ... characters of the class, each with its count.\<close>

fun class_runs :: "(char \<Rightarrow> bool) \<Rightarrow> nat \<Rightarrow> char option \<Rightarrow> string \<Rightarrow> (nat \<times> position) list" where
  "class_runs p n prev [] = [(n, (prev, []))]"
| "class_runs p n prev (c # cs) =
     (n, (prev, c # cs)) # (if p c then class_runs p (Suc n) (Some c) cs else [])"

definition count_within :: "nat \<Rightarrow> nat option \<Rightarrow> nat \<Rightarrow> bool" where
  "count_within lo hi n = (lo \<le> n \<and> (case hi of None \<Rightarrow> True | Some h \<Rightarrow> n \<le> h))"

definition at_boundary :: "position \<Rightarrow> bool" where
  "at_boundary st =
     ((case fst st of None \<Rightarrow> False | Some c \<Rightarrow> is_word c)
      \<noteq> (case snd st of [] \<Rightarrow> False | c # cs \<Rightarrow> is_word c))"

fun rmatch :: "regex \<Rightarrow> position \<Rightarrow> position list" where
  "rmatch (Lit s) st = match_lit s (fst st) (snd st)"
| "rmatch (Rep p lo hi) st =
     map snd (rev (filter (\<lambda>r. count_within lo hi (fst r)) (class_runs p 0 (fst st) (snd st))))"
| "rmatch (Seq []) st = [st]"
| "rmatch (Seq (r # rs)) st = concat (map (rmatch (Seq rs)) (rmatch r st))"
| "rmatch (Alt []) st = []"
| "rmatch (Alt (r # rs)) st = rmatch r st @ rmatch (Alt rs) st"
| "rmatch (Opt r) st = rmatch r st @ [st]"
| "rmatch Boundary st = (if at_boundary st then [st] else [])"

text \<open>
  \<^verbatim>\<open>re.finditer\<close>: the spans of the successive leftmost matches, the search resuming where
  the last match ended. \<open>skip\<close> counts the characters still inside the last match. (No
  pattern of the filter matches the empty string; an empty match would be reported and the
  search moved on by one character.)
\<close>

fun finditer_from :: "regex \<Rightarrow> nat \<Rightarrow> nat \<Rightarrow> char option \<Rightarrow> string \<Rightarrow> (nat \<times> nat) list" where
  "finditer_from r pos skip prev [] =
     (if skip = 0 \<and> rmatch r (prev, []) \<noteq> [] then [(pos, pos)] else [])"
| "finditer_from r pos skip prev (c # cs) =
     (if skip > 0 then finditer_from r (Suc pos) (skip - 1) (Some c) cs
      else case rmatch r (prev, c # cs) of
             [] \<Rightarrow> finditer_from r (Suc pos) 0 (Some c) cs
           | m # ms \<Rightarrow>
               (let n = length (c # cs) - length (snd m)
                in (pos, pos + n) # finditer_from r (Suc pos) (n - 1) (Some c) cs))"

definition finditer :: "regex \<Rightarrow> string \<Rightarrow> (nat \<times> nat) list" where
  "finditer r content = finditer_from r 0 0 None content"

subsection \<open>The pattern tables\<close>

definition digit_run :: "nat \<Rightarrow> regex" where
  "digit_run n = Rep is_digit n (Some n)"

definition spaces0 :: regex where
  "spaces0 = Rep is_space 0 None"

definition spaces1 :: regex where
  "spaces1 = Rep is_space 1 None"

text \<open>\<^verbatim>\<open>[-.]?\<close>, \<^verbatim>\<open>[-.\s]?\<close>, \<^verbatim>\<open>[-\s]*\<close>, \<^verbatim>\<open>[\s:]*\<close> and \<^verbatim>\<open>[\s-]*\<close>.\<close>

definition opt_dash_dot :: regex where
  "opt_dash_dot = Rep (one_of ''-.'') 0 (Some 1)"

definition opt_separator :: regex where
  "opt_separator = Rep (\<lambda>c. one_of ''-.'' c \<or> is_space c) 0 (Some 1)"

definition dashes_spaces :: regex where
  "dashes_spaces = Rep (\<lambda>c. c = CHR ''-'' \<or> is_space c) 0 None"

definition spaces_colons :: regex where
  "spaces_colons = Rep (\<lambda>c. is_space c \<or> c = CHR '':'') 0 None"

definition number_words :: regex where
  "number_words = Alt [Lit ''zero'', Lit ''one'', Lit ''two'', Lit ''three'', Lit ''four'',
                       Lit ''five'', Lit ''six'', Lit ''seven'', Lit ''eight'', Lit ''nine'']"

text \<open>\<^verbatim>\<open>_initialize_phone_patterns\<close>, in the order of the source.\<close>

definition phone_patterns :: "regex list" where
  "phone_patterns =
     [Seq [Boundary, digit_run 3, opt_dash_dot, digit_run 3, opt_dash_dot, digit_run 4, Boundary],
      Seq [Lit ''('', digit_run 3, Lit '')'', spaces0, digit_run 3, opt_dash_dot, digit_run 4],
      Seq [Boundary, digit_run 3, spaces1, digit_run 3, spaces1, digit_run 4, Boundary],
      Seq [Lit ''+1'', opt_separator, digit_run 3, opt_separator, digit_run 3, opt_separator,
           digit_run 4],
      Seq [Lit ''+'', Rep is_digit 1 (Some 3), opt_separator, Rep is_digit 3 (Some 4),
           opt_separator, Rep is_digit 3 (Some 4), opt_separator, Rep is_digit 3 (Some 4)],
      Seq [Boundary, digit_run 3, Rep (\<lambda>c. \<not> (is_digit c \<or> is_word c)) 1 (Some 3), digit_run 3,
           Rep (\<lambda>c. \<not> (is_digit c \<or> is_word c)) 1 (Some 3), digit_run 4, Boundary],
      Seq [Alt [Lit ''call'', Lit ''text'', Lit ''phone''], spaces_colons, digit_run 3],
      Seq [Alt [Lit ''five'', Lit ''six'', Lit ''seven'', Lit ''eight'', Lit ''nine''],
           dashes_spaces, number_words, dashes_spaces, number_words],
      Seq [Rep is_digit 3 None, dashes_spaces, Rep is_digit 3 None, dashes_spaces,
           Rep is_digit 3 None],
      Seq [digit_run 1, spaces1, digit_run 1, spaces1, digit_run 1, spaces1, dashes_spaces,
           digit_run 1, spaces1, digit_run 1, spaces1, digit_run 1, spaces1, dashes_spaces,
           digit_run 1, spaces1, digit_run 1, spaces1, digit_run 1, spaces1, digit_run 1],
      Seq [digit_run 3, Rep (\<lambda>c. \<not> (is_word c \<or> is_space c)) 1 (Some 1), digit_run 3,
           Rep (\<lambda>c. \<not> (is_word c \<or> is_space c)) 1 (Some 1), digit_run 4]]"

text \<open>\<^verbatim>\<open>[A-Za-z0-9._%+-]+\<close>, \<^verbatim>\<open>[A-Za-z0-9.-]+\<close> and \<^verbatim>\<open>[A-Z|a-z]{2,}\<close> (the bar is
  a member of the class).\<close>

definition local_part :: regex where
  "local_part = Rep (\<lambda>c. is_alpha c \<or> is_digit c \<or> one_of ''._%+-'' c) 1 None"

definition domain_part :: regex where
  "domain_part = Rep (\<lambda>c. is_alpha c \<or> is_digit c \<or> one_of ''.-'' c) 1 None"

definition top_level :: regex where
  "top_level = Rep (\<lambda>c. is_alpha c \<or> c = CHR ''|'') 2 None"

definition opt_char :: "char \<Rightarrow> regex" where
  "opt_char x = Rep (\<lambda>c. c = x) 0 (Some 1)"

text \<open>\<^verbatim>\<open>_initialize_email_patterns\<close>, in the order of the source.\<close>

definition email_patterns :: "regex list" where
  "email_patterns =
     [Seq [Boundary, local_part, Lit ''@'', domain_part, Lit ''.'', top_level, Boundary],
      Seq [Boundary, local_part, spaces0, opt_char (CHR ''[''), Lit ''at'', opt_char (CHR '']''),
           spaces0, domain_part, spaces0, opt_char (CHR ''[''), Lit ''dot'', opt_char (CHR '']''),
           spaces0, top_level, Boundary],
      Seq [Boundary, local_part, spaces0, Lit ''@'', spaces0, domain_part, spaces0, Lit ''.'',
           spaces0, top_level, Boundary],
      Seq [Alt [Lit ''email'', Lit ''gmail'', Lit ''yahoo'', Lit ''hotmail'', Lit ''outlook''],
           spaces_colons, local_part],
      Seq [Boundary, local_part, spaces1, Lit ''at'', spaces1, domain_part, spaces1, Lit ''dot'',
           spaces1, top_level, Boundary],
      Seq [Boundary, local_part, spaces0, Lit ''[at]'', spaces0, domain_part, spaces0,
           Lit ''[dot]'', spaces0, top_level, Boundary]]"

text \<open>\<^verbatim>\<open>_initialize_intent_patterns\<close>, in the order of the source.\<close>

definition intent_patterns :: "regex list" where
  "intent_patterns =
     [Seq [Alt [Lit ''call'', Lit ''text'', Lit ''email'', Lit ''contact'', Lit ''reach''], spaces1,
           Lit ''me'', spaces1, Alt [Lit ''at'', Lit ''on'', Lit ''directly'']],
      Seq [Alt [Lit ''my'', Lit ''the''], spaces1,
           Alt [Lit ''number'', Lit ''phone'', Lit ''cell'', Lit ''email'', Lit ''contact'']],
      Seq [Alt [Lit ''give'', Lit ''send''], spaces1, Lit ''me'', spaces1,
           Alt [Lit ''your'', Lit ''a''], spaces1,
           Alt [Lit ''call'', Lit ''text'', Lit ''email'', Lit ''number'']],
      Seq [Lit ''let'', Rep (\<lambda>c. c = CHR 0x27 \<or> c = CHR ''s'' \<or> c = CHR ''S'') 0 None, spaces1,
           Alt [Lit ''talk'', Lit ''chat'', Lit ''discuss''], spaces1,
           Alt [Lit ''offline'', Lit ''directly'', Lit ''outside'', Lit ''privately'']],
      Seq [Alt [Lit ''bypass'', Lit ''skip'', Lit ''avoid''], spaces1,
           Opt (Seq [Lit ''the'', spaces1]), Lit ''platform''],
      Seq [Alt [Lit ''direct'', Lit ''personal'', Lit ''private''], spaces1,
           Alt [Lit ''contact'', Lit ''communication'']],
      Seq [Opt (Seq [Lit ''take'', spaces1, Lit ''this'', spaces1]),
           Alt [Lit ''offline'', Lit ''outside'']],
      Seq [Alt [Lit ''whatsapp'', Lit ''telegram'', Lit ''signal'', Lit ''discord'',
                Lit ''messenger''], spaces1, Lit ''me''],
      Seq [Alt [Lit ''send'', Lit ''share''], spaces1, Alt [Lit ''your'', Lit ''my''], spaces1,
           Alt [Lit ''contact'', Lit ''info'', Lit ''details'']],
      Seq [Alt [Lit ''meet'', Lit ''talk''], spaces1,
           Alt [Lit ''outside'', Seq [Lit ''away'', spaces1, Lit ''from'']], spaces1,
           Alt [Lit ''here'', Lit ''platform'']],
      Seq [Opt (Seq [Lit ''continue'', spaces1]), Alt [Lit ''conversation'', Lit ''discussion''],
           spaces1, Alt [Lit ''elsewhere'', Lit ''privately'']]]"

subsection \<open>The detection layers\<close>

text \<open>
  A detected violation: the dictionary the detection methods build. \<open>cv_pattern\<close> is the
  number of the pattern in its table (the source stores the pattern's text),
  \<open>cv_position\<close> the span of the match; the violations of \<^verbatim>\<open>_analyze_context\<close> have no
  \<^verbatim>\<open>"position"\<close> and no \<^verbatim>\<open>"pattern"\<close> key but an \<^verbatim>\<open>"analysis"\<close>.
\<close>

record contact_violation =
  cv_type :: string
  cv_pattern :: "nat option"
  cv_match :: string
  cv_position :: "(nat \<times> nat) option"
  cv_confidence :: rat
  cv_analysis :: "string option"

text \<open>The loop shared by \<^verbatim>\<open>_detect_phones\<close>, \<^verbatim>\<open>_detect_emails\<close> and
  \<^verbatim>\<open>_detect_contact_intent\<close>: every pattern in turn, every match of it.\<close>

definition pattern_violations ::
  "string \<Rightarrow> rat \<Rightarrow> regex list \<Rightarrow> string \<Rightarrow> contact_violation list" where
  "pattern_violations violation_type confidence patterns content =
     concat (map (\<lambda>(i, pattern).
                map (\<lambda>(s, e). \<lparr>cv_type = violation_type,
                                cv_pattern = Some i,
                                cv_match = take (e - s) (drop s content),
                                cv_position = Some (s, e),
                                cv_confidence = confidence,
                                cv_analysis = None\<rparr>)
                    (finditer pattern content))
             (zip [0 ..< length patterns] patterns))"

definition detect_phones :: "string \<Rightarrow> contact_violation list" where
  "detect_phones content = pattern_violations ''phone_number'' (95 / 100) phone_patterns content"

definition detect_emails :: "string \<Rightarrow> contact_violation list" where
  "detect_emails content = pattern_violations ''email_address'' (90 / 100) email_patterns content"

definition detect_contact_intent :: "string \<Rightarrow> contact_violation list" where
  "detect_contact_intent content =
     pattern_violations ''contact_intent'' (85 / 100) intent_patterns content"

text \<open>
  \<^verbatim>\<open>scan_content\<close> calls \<^verbatim>\<open>self._detect_social_media\<close> and
  \<^verbatim>\<open>self._detect_obfuscation\<close>. \<^verbatim>\<open>ContactProtectionFilter\<close> defines neither (it only
  builds the two pattern tables \<^verbatim>\<open>social_patterns\<close> and \<^verbatim>\<open>obfuscation_patterns\<close>, which
  nothing reads), and no other file of the repository does: the attribute lookup raises
  \<^verbatim>\<open>AttributeError\<close>.
\<close>

definition detect_social_media :: "string \<Rightarrow> py_error + contact_violation list" where
  "detect_social_media content = Inl (AttributeError ''_detect_social_media'')"

definition detect_obfuscation :: "string \<Rightarrow> py_error + contact_violation list" where
  "detect_obfuscation content = Inl (AttributeError ''_detect_obfuscation'')"

text \<open>\<^verbatim>\<open>str.split('.')\<close>, \<^verbatim>\<open>str.strip()\<close> and the substring test \<^verbatim>\<open>in\<close>.\<close>

fun split_on :: "char \<Rightarrow> string \<Rightarrow> string list" where
  "split_on sep [] = [[]]"
| "split_on sep (c # cs) =
     (if c = sep then [] # split_on sep cs
      else case split_on sep cs of
             [] \<Rightarrow> [[c]]
           | w # ws \<Rightarrow> (c # w) # ws)"

definition strip :: "string \<Rightarrow> string" where
  "strip s = rev (dropWhile is_space (rev (dropWhile is_space s)))"

fun starts_with :: "string \<Rightarrow> string \<Rightarrow> bool" where
  "starts_with [] s = True"
| "starts_with (p # ps) [] = False"
| "starts_with (p # ps) (c # cs) = (p = c \<and> starts_with ps cs)"

fun contains :: "string \<Rightarrow> string \<Rightarrow> bool" where
  "contains sub [] = (sub = [])"
| "contains sub (c # cs) = (starts_with sub (c # cs) \<or> contains sub cs)"

text \<open>\<^verbatim>\<open>_analyze_context\<close>: per sentence, at most one imperative and one provision
  violation.\<close>

definition sentence_violations :: "string \<Rightarrow> contact_violation list" where
  "sentence_violations raw =
     (let sentence = lower (strip raw)
      in (if list_ex (\<lambda>intent. contains intent sentence)
               [''call me'', ''text me'', ''email me'', ''contact me'']
          then [\<lparr>cv_type = ''contact_imperative'', cv_pattern = None, cv_match = sentence,
                  cv_position = None, cv_confidence = 85 / 100,
                  cv_analysis = Some ''imperative_contact_request''\<rparr>]
          else [])
         @ (if list_ex (\<lambda>provision. contains provision sentence)
                 [''my number is'', ''email me at'', ''reach me at'']
            then [\<lparr>cv_type = ''contact_provision'', cv_pattern = None, cv_match = sentence,
                    cv_position = None, cv_confidence = 90 / 100,
                    cv_analysis = Some ''providing_contact_info''\<rparr>]
            else []))"

definition analyze_context ::
  "string \<Rightarrow> string \<Rightarrow> (string \<times> string) list option \<Rightarrow> contact_violation list" where
  "analyze_context content user_id context =
     concat (map sentence_violations (split_on (CHR ''.'') content))"

subsection \<open>Redaction and risk\<close>

definition get_replacement_text :: "string \<Rightarrow> string" where
  "get_replacement_text violation_type =
     (case map_of
             [(''phone_number'', ''[PHONE NUMBER BLOCKED]''),
              (''email_address'', ''[EMAIL BLOCKED]''),
              (''social_media'', ''[SOCIAL MEDIA BLOCKED]''),
              (''contact_intent'', ''[CONTACT REQUEST BLOCKED]''),
              (''contact_provision'', ''[CONTACT INFO BLOCKED]''),
              (''contact_imperative'', ''[CONTACT REQUEST BLOCKED]'')] violation_type of
        None \<Rightarrow> ''[CONTACT INFO BLOCKED]''
      | Some replacement \<Rightarrow> replacement)"

text \<open>
  \<^verbatim>\<open>_apply_content_filtering\<close>: the violations that have a position, sorted by their
  start, highest first (Python's sort is stable, also with \<^verbatim>\<open>reverse=True\<close>), and then
  one replacement after the other on the text as it stands, each with the offsets of its
  match in the original text.
\<close>

definition positioned :: "contact_violation list \<Rightarrow> (nat \<times> nat \<times> string) list" where
  "positioned violations =
     concat (map (\<lambda>v. case cv_position v of
                         None \<Rightarrow> []
                       | Some (s, e) \<Rightarrow> [(s, e, cv_type v)]) violations)"

definition apply_content_filtering :: "string \<Rightarrow> contact_violation list \<Rightarrow> string" where
  "apply_content_filtering content violations =
     fold (\<lambda>(s, e, violation_type) filtered_content.
              take s filtered_content @ get_replacement_text violation_type
                @ drop e filtered_content)
          (sort_key (\<lambda>(s, e, violation_type). - int s) (positioned violations))
          content"

definition calculate_risk_level :: "contact_violation list \<Rightarrow> string" where
  "calculate_risk_level violations =
     (if violations = [] then ''low''
      else if list_ex (\<lambda>v. cv_type v \<in> set [''phone_number'', ''email_address'',
                                               ''contact_provision'']) violations
        then ''high''
      else if list_ex (\<lambda>v. cv_type v \<in> set [''contact_intent'', ''contact_imperative''])
                violations
        then ''medium''
      else ''low'')"

subsection \<open>scan\_content\<close>

text \<open>
  The result dictionary. \<^verbatim>\<open>violation_types\<close> is \<^verbatim>\<open>list(set(...))\<close>, whose order Python
  does not fix; the model keeps the order of first occurrence.
\<close>

record scan_result =
  violations_found :: bool
  violation_types :: "string list"
  detected_patterns :: "contact_violation list"
  scan_user_id :: string
  content_original :: string
  content_filtered :: string
  risk_level :: string
  scan_timestamp :: nat

text \<open>
  \<^verbatim>\<open>scan_content\<close>, statement by statement. \<^verbatim>\<open>_log_violation\<close> catches its own
  exceptions and does not change the result, so it leaves no trace here.
\<close>

definition scan_content ::
  "nat \<Rightarrow> string \<Rightarrow> string \<Rightarrow> (string \<times> string) list option \<Rightarrow> py_error + scan_result" where
  "scan_content now content user_id context =
     (let results = \<lparr>violations_found = False, violation_types = [], detected_patterns = [],
                     scan_user_id = user_id, content_original = content,
                     content_filtered = content, risk_level = ''low'', scan_timestamp = now\<rparr>;
          content_lower = lower content;
          phone_violations = detect_phones content;
          email_violations = detect_emails content
      in case detect_social_media content of
           Inl e \<Rightarrow> Inl e
         | Inr social_violations \<Rightarrow>
            (let intent_violations = detect_contact_intent content_lower
             in case detect_obfuscation content_lower of
                  Inl e \<Rightarrow> Inl e
                | Inr obfuscation_violations \<Rightarrow>
                   (let context_violations = analyze_context content user_id context;
                        all_violations = phone_violations @ email_violations @ social_violations
                          @ intent_violations @ obfuscation_violations @ context_violations
                    in if all_violations \<noteq> [] then
                         Inr (results\<lparr>violations_found := True,
                                      violation_types := remdups (map cv_type all_violations),
                                      detected_patterns := all_violations,
                                      risk_level := calculate_risk_level all_violations,
                                      content_filtered :=
                                        apply_content_filtering content all_violations\<rparr>)
                       else Inr results)))"

section \<open>Properties of the cost circuit breaker\<close>

lemma log_cost_violation_fields [simp]:
  "is_shutdown (log_cost_violation v s) = is_shutdown s"
  "shutdown_reason (log_cost_violation v s) = shutdown_reason s"
  "daily_cost (log_cost_violation v s) = daily_cost s"
  "hourly_cost (log_cost_violation v s) = hourly_cost s"
  "daily_limit (log_cost_violation v s) = daily_limit s"
  "hourly_limit (log_cost_violation v s) = hourly_limit s"
  "per_event_limit (log_cost_violation v s) = per_event_limit s"
  "emergency_threshold (log_cost_violation v s) = emergency_threshold s"
  "mcp (log_cost_violation v s) = mcp s"
  by (simp_all add: log_cost_violation_def Let_def)

lemma trigger_emergency_shutdown_fields [simp]:
  "is_shutdown (trigger_emergency_shutdown now m s)"
  "shutdown_reason (trigger_emergency_shutdown now m s) = Some m"
  "daily_cost (trigger_emergency_shutdown now m s) = daily_cost s"
  "hourly_cost (trigger_emergency_shutdown now m s) = hourly_cost s"
  "daily_limit (trigger_emergency_shutdown now m s) = daily_limit s"
  "hourly_limit (trigger_emergency_shutdown now m s) = hourly_limit s"
  "per_event_limit (trigger_emergency_shutdown now m s) = per_event_limit s"
  "emergency_threshold (trigger_emergency_shutdown now m s) = emergency_threshold s"
  "mcp (trigger_emergency_shutdown now m s) = mcp s"
  by (simp_all add: trigger_emergency_shutdown_def)

lemma update_cost_tracking_fields [simp]:
  "is_shutdown (update_cost_tracking now s) = is_shutdown s"
  "shutdown_reason (update_cost_tracking now s) = shutdown_reason s"
  "daily_limit (update_cost_tracking now s) = daily_limit s"
  "hourly_limit (update_cost_tracking now s) = hourly_limit s"
  "per_event_limit (update_cost_tracking now s) = per_event_limit s"
  "emergency_threshold (update_cost_tracking now s) = emergency_threshold s"
  "mcp (update_cost_tracking now s) = mcp s"
  by (simp_all add: update_cost_tracking_def Let_def split: sum.splits)

lemma check_when_shutdown:
  "is_shutdown s \<Longrightarrow>
   check_cost_approval now est op ctx s =
     (\<lparr>approved = False, reason = System_in_emergency_shutdown (shutdown_reason s),
       costs = get_current_costs s, warnings = [''EMERGENCY_SHUTDOWN_ACTIVE'']\<rparr>, s)"
  by (simp add: check_cost_approval_def)

lemma record_keeps_shutdown:
  "is_shutdown s \<Longrightarrow> is_shutdown (record_actual_cost now c op s)"
  by (simp add: record_actual_cost_def Let_def split: sum.splits)

lemma do_call_keeps_shutdown:
  "is_shutdown s \<Longrightarrow> \<not> authorized_reset (snd c) \<Longrightarrow> is_shutdown (do_call c s)"
proof (cases c)
  case (Pair now call)
  assume sd: "is_shutdown s" and na: "\<not> authorized_reset (snd c)"
  show ?thesis
  proof (cases call)
    case (Check e ot)
    with Pair sd show ?thesis by (simp add: check_when_shutdown)
  next
    case (Record a ot)
    with Pair sd show ?thesis by (simp add: record_keeps_shutdown)
  next
    case (Reset k w)
    with Pair sd na show ?thesis by (simp add: reset_circuit_breaker_def)
  qed
qed

lemma run_calls_keeps_shutdown:
  "is_shutdown s \<Longrightarrow> list_all (\<lambda>c. \<not> authorized_reset (snd c)) calls \<Longrightarrow>
   is_shutdown (run_calls calls s)"
proof (induction calls arbitrary: s)
  case Nil
  then show ?case by simp
next
  case (Cons c cs)
  from Cons.prems have "is_shutdown (do_call c s)"
    by (simp add: do_call_keeps_shutdown)
  moreover from Cons.prems have "list_all (\<lambda>c. \<not> authorized_reset (snd c)) cs" by simp
  ultimately show ?case using Cons.IH by simp
qed

lemma check_trips:
  "\<not> is_shutdown s \<Longrightarrow>
   is_shutdown (snd (check_cost_approval now est op ctx s)) =
     (est \<le> per_event_limit s
      \<and> daily_cost (update_cost_tracking now s) + est > daily_limit s
      \<and> daily_cost (update_cost_tracking now s) + est > emergency_threshold s)"
  by (auto simp add: check_cost_approval_def Let_def)

lemma reset_success_closed:
  "success (fst (reset_circuit_breaker k why s)) \<Longrightarrow>
   k = ''admin_reset_key_placeholder'' \<and> \<not> is_shutdown (snd (reset_circuit_breaker k why s))"
  by (auto simp add: reset_circuit_breaker_def Let_def split: if_splits sum.splits)

subsection \<open>The latch while no reset carries the administrative key\<close>

text \<open>
  A check on a CLOSED breaker trips it to OPEN when the estimate passes the per-event test
  and the projected daily total (the daily total after the window refresh of
  \<^verbatim>\<open>_update_cost_tracking\<close>, plus the estimate) exceeds both the daily limit and the
  emergency threshold. Once the breaker is OPEN, after any sequence of calls of the public
  API that holds no reset with the administrative key (checks, records, resets with any
  other key), the breaker is still OPEN and a check with any estimate returns
  \<open>approved = False\<close> with the single warning code \<^verbatim>\<open>EMERGENCY_SHUTDOWN_ACTIVE\<close> and leaves
  the breaker as it is. A reset that succeeds was given the administrative key and leaves
  the breaker CLOSED.
\<close>

lemma shutdown_latches_without_authorized_reset:
  "(\<not> is_shutdown s \<and> est \<le> per_event_limit s
      \<and> daily_cost (update_cost_tracking now s) + est > daily_limit s
      \<and> daily_cost (update_cost_tracking now s) + est > emergency_threshold s
     \<longrightarrow> is_shutdown (snd (check_cost_approval now est op ctx s)))
   \<and> (is_shutdown s \<and> list_all (\<lambda>c. \<not> authorized_reset (snd c)) calls
     \<longrightarrow> is_shutdown (run_calls calls s)
         \<and> check_cost_approval now_b est_b op_b ctx_b (run_calls calls s) =
             (\<lparr>approved = False,
               reason = System_in_emergency_shutdown (shutdown_reason (run_calls calls s)),
               costs = get_current_costs (run_calls calls s),
               warnings = [''EMERGENCY_SHUTDOWN_ACTIVE'']\<rparr>, run_calls calls s))
   \<and> (success (fst (reset_circuit_breaker k why s))
     \<longrightarrow> k = ''admin_reset_key_placeholder'' \<and> \<not> is_shutdown (snd (reset_circuit_breaker k why s)))"
  using check_trips [of s now est op ctx] run_calls_keeps_shutdown [of s calls]
    check_when_shutdown [of "run_calls calls s" now_b est_b op_b ctx_b]
    reset_success_closed [of k why s]
  by blast

subsection \<open>C1: the latch and a reset that fails\<close>

text \<open>
  Claim C1 says that a tripped breaker rejects every check with the emergency code until an
  authorized reset succeeds. On the code, \<^verbatim>\<open>reset_circuit_breaker\<close> clears
  \<^verbatim>\<open>is_shutdown\<close> before it logs the reset, and when that tool call raises it returns
  \<open>success = False\<close> without setting the flag again. A breaker with a daily limit of 130, a
  per-event limit of 30 and an emergency threshold of 150, whose tool raises on
  \<^verbatim>\<open>log_admin_action\<close> only, is tripped by a check of 25 and rejects the next check with
  \<^verbatim>\<open>EMERGENCY_SHUTDOWN_ACTIVE\<close>; the reset with the administrative key then reports
  failure, and yet the breaker is CLOSED and the following check of 0.01 is approved.
\<close>

theorem failed_reset_reopens_breaker:
  "is_shutdown (snd (check_cost_approval 0 25 ''general'' []
      ((init_breaker 0 130 30 100 150)
         \<lparr>mcp := (\<lambda>tool_name operation.
                    if operation = ''log_admin_action'' then Inl ToolFailure
                    else call_mcp_tool tool_name operation)\<rparr>)))
   \<and> warnings (fst (check_cost_approval 10 (1 / 100) ''general'' []
        (snd (check_cost_approval 0 25 ''general'' []
          ((init_breaker 0 130 30 100 150)
             \<lparr>mcp := (\<lambda>tool_name operation.
                        if operation = ''log_admin_action'' then Inl ToolFailure
                        else call_mcp_tool tool_name operation)\<rparr>)))))
       = [''EMERGENCY_SHUTDOWN_ACTIVE'']
   \<and> fst (reset_circuit_breaker ''admin_reset_key_placeholder'' ''reviewed''
        (snd (check_cost_approval 0 25 ''general'' []
          ((init_breaker 0 130 30 100 150)
             \<lparr>mcp := (\<lambda>tool_name operation.
                        if operation = ''log_admin_action'' then Inl ToolFailure
                        else call_mcp_tool tool_name operation)\<rparr>))))
       = \<lparr>success = False, reset_reason = Reset_failed ToolFailure\<rparr>
   \<and> \<not> is_shutdown (snd (reset_circuit_breaker ''admin_reset_key_placeholder'' ''reviewed''
        (snd (check_cost_approval 0 25 ''general'' []
          ((init_breaker 0 130 30 100 150)
             \<lparr>mcp := (\<lambda>tool_name operation.
                        if operation = ''log_admin_action'' then Inl ToolFailure
                        else call_mcp_tool tool_name operation)\<rparr>)))))
   \<and> approved (fst (check_cost_approval 40 (1 / 100) ''general'' []
        (snd (reset_circuit_breaker ''admin_reset_key_placeholder'' ''reviewed''
          (snd (check_cost_approval 0 25 ''general'' []
            ((init_breaker 0 130 30 100 150)
               \<lparr>mcp := (\<lambda>tool_name operation.
                          if operation = ''log_admin_action'' then Inl ToolFailure
                          else call_mcp_tool tool_name operation)\<rparr>)))))))"
  by (simp add: init_breaker_def update_cost_tracking_def call_mcp_tool_def redis_operation_def
        supabase_operation_def utc_date_def utc_hour_def Let_def check_cost_approval_def
        log_cost_violation_def trigger_emergency_shutdown_def reset_circuit_breaker_def
        detect_suspicious_patterns_def)

subsection \<open>C3: a check never commits its estimate\<close>

text \<open>
  Claim C3. After \<^verbatim>\<open>check_cost_approval\<close> the daily and hourly totals are the totals
  the window refresh alone leaves (the breaker's own totals when it is OPEN), whatever the
  estimated cost and whether the call approves or rejects: the estimate is never added.
  \<^verbatim>\<open>record_actual_cost\<close> adds the actual cost to both totals.
\<close>

theorem check_never_commits_estimated_cost:
  "daily_cost (snd (check_cost_approval now est op ctx s)) =
     daily_cost (if is_shutdown s then s else update_cost_tracking now s)
   \<and> hourly_cost (snd (check_cost_approval now est op ctx s)) =
     hourly_cost (if is_shutdown s then s else update_cost_tracking now s)
   \<and> daily_cost (record_actual_cost now_b c op_b s) = daily_cost s + c
   \<and> hourly_cost (record_actual_cost now_b c op_b s) = hourly_cost s + c"
  by (simp add: check_cost_approval_def record_actual_cost_def Let_def split: sum.splits)

subsection \<open>C7: the order of the limit tests\<close>

text \<open>
  Claim C7, as the code has it. With \<open>per_event_limit = 5\<close> and \<open>daily_limit = 100\<close>, and
  with the totals read after the window refresh at the start of the call: on a CLOSED
  breaker a check of 4 is approved whenever the daily total plus 4 is at most 100 and the
  hourly total plus 4 is at most the hourly limit; on a CLOSED breaker a check of 4 with the
  daily total plus 4 above 100 is rejected with the warning code \<^verbatim>\<open>DAILY_LIMIT_EXCEEDED\<close>;
  on a CLOSED breaker a check of 6 is rejected with \<^verbatim>\<open>PER_EVENT_LIMIT_EXCEEDED\<close> whatever
  the totals, which it does not change beyond the refresh; and on an OPEN breaker every
  check, whatever its estimate, is rejected with \<^verbatim>\<open>EMERGENCY_SHUTDOWN_ACTIVE\<close> and leaves
  the breaker as it is.
\<close>

theorem check_limits_by_breaker_state:
  assumes "per_event_limit s = 5" and "daily_limit s = 100"
  shows "(\<not> is_shutdown s
            \<and> daily_cost (update_cost_tracking now s) + 4 \<le> 100
            \<and> hourly_cost (update_cost_tracking now s) + 4 \<le> hourly_limit s
          \<longrightarrow> approved (fst (check_cost_approval now 4 op ctx s)))
       \<and> (\<not> is_shutdown s \<and> daily_cost (update_cost_tracking now s) + 4 > 100
          \<longrightarrow> \<not> approved (fst (check_cost_approval now 4 op ctx s))
              \<and> warnings (fst (check_cost_approval now 4 op ctx s)) = [''DAILY_LIMIT_EXCEEDED''])
       \<and> (\<not> is_shutdown s
          \<longrightarrow> \<not> approved (fst (check_cost_approval now 6 op ctx s))
              \<and> warnings (fst (check_cost_approval now 6 op ctx s)) = [''PER_EVENT_LIMIT_EXCEEDED'']
              \<and> daily_cost (snd (check_cost_approval now 6 op ctx s))
                  = daily_cost (update_cost_tracking now s)
              \<and> hourly_cost (snd (check_cost_approval now 6 op ctx s))
                  = hourly_cost (update_cost_tracking now s))
       \<and> (is_shutdown s
          \<longrightarrow> \<not> approved (fst (check_cost_approval now est op ctx s))
              \<and> warnings (fst (check_cost_approval now est op ctx s)) = [''EMERGENCY_SHUTDOWN_ACTIVE'']
              \<and> snd (check_cost_approval now est op ctx s) = s)"
  using assms by (auto simp add: check_cost_approval_def Let_def)

theorem check_limits_by_breaker_state_witness:
  "approved (fst (check_cost_approval 0 4 ''general'' []
      ((init_breaker 0 100 5 100 2000)
        \<lparr>mcp := (\<lambda>tool_name operation.
                   Inr \<lparr>reply_status = Some ''success'', reply_daily_cost = Some 50\<rparr>)\<rparr>)))
   \<and> \<not> approved (fst (check_cost_approval 0 4 ''general'' [] (init_breaker 0 100 5 100 2000)))
   \<and> warnings (fst (check_cost_approval 0 4 ''general'' [] (init_breaker 0 100 5 100 2000)))
       = [''DAILY_LIMIT_EXCEEDED'']
   \<and> warnings (fst (check_cost_approval 0 6 ''general'' [] (init_breaker 0 100 5 100 2000)))
       = [''PER_EVENT_LIMIT_EXCEEDED'']
   \<and> is_shutdown (record_actual_cost 0 3000 ''general'' (init_breaker 0 100 5 100 2000))
   \<and> \<not> approved (fst (check_cost_approval 0 (1 / 100) ''general'' []
        (record_actual_cost 0 3000 ''general'' (init_breaker 0 100 5 100 2000))))
   \<and> warnings (fst (check_cost_approval 0 (1 / 100) ''general'' []
        (record_actual_cost 0 3000 ''general'' (init_breaker 0 100 5 100 2000))))
       = [''EMERGENCY_SHUTDOWN_ACTIVE'']"
proof -
  let ?s = "(init_breaker 0 100 5 100 2000)
        \<lparr>mcp := (\<lambda>tool_name operation.
                   Inr \<lparr>reply_status = Some ''success'', reply_daily_cost = Some 50\<rparr>)\<rparr>"
  let ?f = "init_breaker 0 100 5 100 2000"
  let ?o = "record_actual_cost 0 3000 ''general'' (init_breaker 0 100 5 100 2000)"
  have hs: "per_event_limit ?s = 5" "daily_limit ?s = 100"
    by (simp_all add: init_breaker_def)
  have cs: "\<not> is_shutdown ?s" by (simp add: init_breaker_def)
  have ds: "daily_cost (update_cost_tracking 0 ?s) + 4 \<le> 100
            \<and> hourly_cost (update_cost_tracking 0 ?s) + 4 \<le> hourly_limit ?s"
    by (simp add: init_breaker_def update_cost_tracking_def utc_date_def utc_hour_def Let_def)
  have hf: "per_event_limit ?f = 5" "daily_limit ?f = 100"
    by (simp_all add: init_breaker_def)
  have cf: "\<not> is_shutdown ?f" by (simp add: init_breaker_def)
  have df: "daily_cost (update_cost_tracking 0 ?f) + 4 > 100"
    by (simp add: init_breaker_def update_cost_tracking_def utc_date_def utc_hour_def Let_def
          call_mcp_tool_def redis_operation_def)
  have ho: "per_event_limit ?o = 5" "daily_limit ?o = 100"
    by (simp_all add: init_breaker_def record_actual_cost_def Let_def call_mcp_tool_def
          split: sum.splits)
  have co: "is_shutdown ?o"
    by (simp add: init_breaker_def record_actual_cost_def Let_def call_mcp_tool_def)
  show ?thesis
    using cs ds cf df co
      check_limits_by_breaker_state [OF hs, where now = 0 and op = "''general''" and ctx = "[]"]
      check_limits_by_breaker_state [OF hf, where now = 0 and op = "''general''" and ctx = "[]"]
      check_limits_by_breaker_state [OF ho, where now = 0 and op = "''general''" and ctx = "[]"
        and est = "1 / 100"]
    by blast
qed

text \<open>
  The claim as stated fails in three ways. A breaker just constructed with these limits has
  a daily total of 0, yet its first check of 4 is rejected: the refresh replaces the total by
  the figure the tool reports. A breaker that a recorded cost of 3000 has tripped answers a
  check of 6 with \<^verbatim>\<open>EMERGENCY_SHUTDOWN_ACTIVE\<close>, not with the per-event code. With an hourly
  limit of 3 and a tool that is unavailable, a check of 4 is rejected for the hourly rate
  although the daily total plus 4 is count_within 100 before and after the refresh.
\<close>

theorem check_limits_counterexample:
  "per_event_limit (init_breaker 0 100 5 100 2000) = 5
   \<and> daily_limit (init_breaker 0 100 5 100 2000) = 100
   \<and> daily_cost (init_breaker 0 100 5 100 2000) + 4 \<le> 100
   \<and> \<not> approved (fst (check_cost_approval 0 4 ''general'' [] (init_breaker 0 100 5 100 2000)))
   \<and> per_event_limit (record_actual_cost 0 3000 ''general'' (init_breaker 0 100 5 100 2000)) = 5
   \<and> daily_limit (record_actual_cost 0 3000 ''general'' (init_breaker 0 100 5 100 2000)) = 100
   \<and> warnings (fst (check_cost_approval 0 6 ''general'' []
        (record_actual_cost 0 3000 ''general'' (init_breaker 0 100 5 100 2000))))
       = [''EMERGENCY_SHUTDOWN_ACTIVE'']
   \<and> daily_cost ((init_breaker 0 100 5 3 2000)\<lparr>mcp := (\<lambda>tool_name operation. Inl ToolFailure)\<rparr>) + 4 \<le> 100
   \<and> daily_cost (update_cost_tracking 0
        ((init_breaker 0 100 5 3 2000)\<lparr>mcp := (\<lambda>tool_name operation. Inl ToolFailure)\<rparr>)) + 4 \<le> 100
   \<and> warnings (fst (check_cost_approval 0 4 ''general'' []
        ((init_breaker 0 100 5 3 2000)\<lparr>mcp := (\<lambda>tool_name operation. Inl ToolFailure)\<rparr>)))
       = [''HOURLY_RATE_EXCEEDED'']"
  by (simp add: init_breaker_def update_cost_tracking_def call_mcp_tool_def redis_operation_def
        supabase_operation_def utc_date_def utc_hour_def Let_def check_cost_approval_def
        record_actual_cost_def log_cost_violation_def trigger_emergency_shutdown_def)

subsection \<open>C10: a reset needs the administrative key\<close>

text \<open>
  Claim C10. A reset with any key other than the hard-coded one returns
  \<open>success = False\<close> and the breaker unchanged (state, reason, counters and all); and an OPEN
  breaker is CLOSED after a reset exactly when the key is the hard-coded one.
\<close>

theorem reset_requires_admin_key:
  "(admin_key \<noteq> ''admin_reset_key_placeholder'' \<longrightarrow>
      reset_circuit_breaker admin_key why s =
        (\<lparr>success = False, reset_reason = Invalid_administrative_key\<rparr>, s))
   \<and> (is_shutdown s \<longrightarrow>
        (\<not> is_shutdown (snd (reset_circuit_breaker admin_key why s)))
          = (admin_key = ''admin_reset_key_placeholder''))"
  by (simp add: reset_circuit_breaker_def Let_def split: sum.splits)

theorem reset_requires_admin_key_witness:
  "''guess'' \<noteq> ''admin_reset_key_placeholder''
   \<and> is_shutdown (record_actual_cost 0 3000 ''general'' (default_breaker 0))
   \<and> reset_circuit_breaker ''guess'' ''please'' (record_actual_cost 0 3000 ''general'' (default_breaker 0))
       = (\<lparr>success = False, reset_reason = Invalid_administrative_key\<rparr>,
          record_actual_cost 0 3000 ''general'' (default_breaker 0))
   \<and> is_shutdown (snd (reset_circuit_breaker ''guess'' ''please''
         (record_actual_cost 0 3000 ''general'' (default_breaker 0))))"
proof -
  let ?S = "record_actual_cost 0 3000 ''general'' (default_breaker 0)"
  have k: "''guess'' \<noteq> ''admin_reset_key_placeholder''" by simp
  have sd: "is_shutdown ?S"
    by (simp add: default_breaker_def init_breaker_def record_actual_cost_def Let_def
          call_mcp_tool_def)
  show ?thesis
    using k sd reset_requires_admin_key [where admin_key = "''guess''" and why = "''please''" and s = ?S]
    by blast
qed

section \<open>Properties of the violation tracker\<close>

lemmas tracker_eval = process_violation_def get_user_violation_profile_def call_tool_def
  sql_store_def result_rows_def get_account_status_def truthy_get_def new_violation_record_def
  escalation_rules_def store_violation_record_def apply_enforcement_action_def
  send_warning_message_def restrict_messaging_def suspend_account_def ban_account_permanently_def
  log_enforcement_action_def update_user_escalation_level_def block_content_def
  row_to_violation_def violation_row_def ViolationSeverity_of_def EnforcementAction_of_def
  truthy_hours_def hours_def expiry_time_def default_profile_def Let_def

lemma max_level: "Max (fst ` set escalation_rules) = 4"
  by (simp add: escalation_rules_def)

lemma load_rows_level_nonneg:
  "load_rows uid rows (vs, lvl, lv) = Inr (vs', lvl', lv') \<Longrightarrow> 0 \<le> lvl \<Longrightarrow> 0 \<le> lvl'"
proof (induction rows arbitrary: vs lvl lv)
  case Nil
  then show ?case by simp
next
  case (Cons row rows)
  then show ?case
    by (auto split: sum.splits if_splits option.splits)
qed

lemma account_status_history:
  "\<exists>ext. snd (get_account_status client uid lvl h) = h @ ext"
  by (simp add: get_account_status_def call_tool_def split: sum.splits bool.splits)

lemma profile_level_nonneg:
  "0 \<le> up_escalation_level (fst (get_user_violation_profile client uid h))"
  by (auto simp add: get_user_violation_profile_def call_tool_def default_profile_def
        split: sum.splits prod.splits dest: load_rows_level_nonneg)

lemma severity_points_pos: "1 \<le> severity_multipliers sev"
  by (cases sev) simp_all

lemma capped_level_cases:
  assumes "0 \<le> (l::int)" and "1 \<le> p"
  shows "min (l + p) 4 = 1 \<or> min (l + p) 4 = 2 \<or> min (l + p) 4 = 3 \<or> min (l + p) 4 = 4"
  using assms by (auto simp add: min_def)

lemma new_violation_record_ok:
  assumes "0 \<le> up_escalation_level p"
  shows "\<exists>r. new_violation_record new_id now uid vt c sev dm p = Inr r
             \<and> vr_escalation_level r = min (up_escalation_level p + severity_multipliers sev) 4
             \<and> map_of escalation_rules (vr_escalation_level r) \<noteq> None
             \<and> Some (vr_action_taken r) = map_option rule_action (map_of escalation_rules (vr_escalation_level r))
             \<and> vr_user_id r = uid \<and> vr_severity r = sev \<and> vr_id r = new_id \<and> vr_timestamp r = now"
proof -
  let ?L = "min (up_escalation_level p + severity_multipliers sev) 4"
  from capped_level_cases [OF assms severity_points_pos [of sev]]
  have "?L = 1 \<or> ?L = 2 \<or> ?L = 3 \<or> ?L = 4" .
  then obtain rule where "map_of escalation_rules ?L = Some rule"
    by (auto simp add: escalation_rules_def)
  then show ?thesis
    by (simp add: new_violation_record_def max_level Let_def)
qed

lemma apply_enforcement_history:
  assumes "enforcement_call now r = Some c"
  shows "\<exists>ext. snd (apply_enforcement_action client now r p h) = h @ [c] @ ext"
proof -
  from assms obtain rule where rule: "map_of escalation_rules (vr_escalation_level r) = Some rule"
    by (auto simp add: enforcement_call_def split: option.splits)
  show ?thesis
  proof (cases "vr_action_taken r")
    case WARNING
    with assms rule show ?thesis
      by (auto simp add: enforcement_call_def apply_enforcement_action_def Let_def
            send_warning_message_def call_tool_def log_enforcement_action_def
            split: sum.splits prod.splits)
  next
    case CONTENT_BLOCK
    with assms rule show ?thesis by (simp add: enforcement_call_def)
  next
    case MESSAGING_RESTRICTION
    with assms rule show ?thesis
      by (auto simp add: enforcement_call_def apply_enforcement_action_def Let_def
            restrict_messaging_def call_tool_def log_enforcement_action_def
            split: sum.splits prod.splits)
  next
    case ACCOUNT_SUSPENSION
    with assms rule show ?thesis
      by (auto simp add: enforcement_call_def apply_enforcement_action_def Let_def
            suspend_account_def call_tool_def log_enforcement_action_def
            split: sum.splits prod.splits)
  next
    case PERMANENT_BAN
    with assms rule show ?thesis
      by (auto simp add: enforcement_call_def apply_enforcement_action_def Let_def
            ban_account_permanently_def call_tool_def log_enforcement_action_def
            split: sum.splits prod.splits)
  next
    case ADMIN_ALERT
    with assms rule show ?thesis by (simp add: enforcement_call_def)
  qed
qed

lemma new_record_enforcement_call:
  assumes "new_violation_record new_id now uid vt c sev dm p = Inr r"
  shows "enforcement_call t r \<noteq> None"
proof -
  from assms obtain rule where
    rule: "map_of escalation_rules (vr_escalation_level r) = Some rule"
    and act: "vr_action_taken r = rule_action rule"
    by (auto simp add: new_violation_record_def Let_def split: option.splits)
  from rule have "rule_action rule \<in> {WARNING, MESSAGING_RESTRICTION, ACCOUNT_SUSPENSION, PERMANENT_BAN}"
    by (auto simp add: escalation_rules_def split: if_splits)
  with rule act show ?thesis
    by (auto simp add: enforcement_call_def)
qed

lemma process_violation_unfold:
  assumes "get_user_violation_profile client uid h = (p, h1)"
    and "new_violation_record new_id now uid vt c sev dm p = Inr r"
  shows "process_violation client new_id now uid vt c sev dm m h =
     (Inl (AttributeError ''_update_user_escalation_level''), m,
      snd (apply_enforcement_action client now r p (h1 @ [Supabase (Insert_security_violation r)])))"
  using assms
  by (simp add: process_violation_def store_violation_record_def call_tool_def
        update_user_escalation_level_def split: prod.splits sum.splits)

lemma process_violation_calls:
  assumes "get_user_violation_profile client uid h = (p, h1)"
  shows "\<exists>r c'. new_violation_record new_id now uid vt c sev dm p = Inr r
           \<and> vr_escalation_level r = min (up_escalation_level p + severity_multipliers sev) 4
           \<and> enforcement_call now r = Some c'
           \<and> fst (process_violation client new_id now uid vt c sev dm m h)
               = Inl (AttributeError ''_update_user_escalation_level'')
           \<and> take (length h1 + 2) (snd (snd (process_violation client new_id now uid vt c sev dm m h)))
               = h1 @ [Supabase (Insert_security_violation r), c']"
proof -
  from assms profile_level_nonneg [of client uid h] have "0 \<le> up_escalation_level p" by simp
  from new_violation_record_ok [OF this, of new_id now uid vt c sev dm]
  obtain r where r: "new_violation_record new_id now uid vt c sev dm p = Inr r"
    and lvl: "vr_escalation_level r = min (up_escalation_level p + severity_multipliers sev) 4"
    by blast
  from new_record_enforcement_call [OF r, of now]
  obtain c' where c': "enforcement_call now r = Some c'" by auto
  from apply_enforcement_history [OF c', of client p "h1 @ [Supabase (Insert_security_violation r)]"]
  obtain ext where ext: "snd (apply_enforcement_action client now r p (h1 @ [Supabase (Insert_security_violation r)]))
      = (h1 @ [Supabase (Insert_security_violation r)]) @ [c'] @ ext" by blast
  from process_violation_unfold [OF assms r, of m] ext r lvl c' show ?thesis
    by simp
qed

lemma nth_of_take_eq: "take n xs = ys \<Longrightarrow> i < n \<Longrightarrow> xs ! i = ys ! i"
  by (metis nth_take)

subsection \<open>C4: the new escalation level\<close>


subsection \<open>C9: a failed load of the history fails open\<close>

text \<open>
  Claim C9. When the SELECT of the user's violation history raises,
  \<^verbatim>\<open>get_user_violation_profile\<close> returns the default profile (escalation level 0, no
  violations, account status \<^verbatim>\<open>"active"\<close>), and the \<^verbatim>\<open>process_violation\<close> in which this
  happens builds and sends to the store a record whose level is computed from 0: the
  severity points, capped at 4. In the witness a user banned at level 4 is reported again
  while the store is unavailable, and the new record carries level 1 and a warning.
\<close>

theorem profile_load_failure_fails_open:
  "client h (Supabase (Select_security_violations uid)) = Inl e \<longrightarrow>
     get_user_violation_profile client uid h
       = (default_profile uid, h @ [Supabase (Select_security_violations uid)])
     \<and> up_escalation_level (default_profile uid) = 0
     \<and> up_total_violations (default_profile uid) = 0
     \<and> up_account_status (default_profile uid) = ''active''
     \<and> (\<exists>r. new_violation_record new_id now uid vt c sev dm (default_profile uid) = Inr r
          \<and> vr_escalation_level r = min (0 + severity_multipliers sev) 4
          \<and> take (length h + 2) (snd (snd (process_violation client new_id now uid vt c sev dm m h)))
             = h @ [Supabase (Select_security_violations uid), Supabase (Insert_security_violation r)])"
proof
  assume fails: "client h (Supabase (Select_security_violations uid)) = Inl e"
  let ?h1 = "h @ [Supabase (Select_security_violations uid)]"
  from fails have ph: "get_user_violation_profile client uid h = (default_profile uid, ?h1)"
    by (simp add: get_user_violation_profile_def call_tool_def)
  from process_violation_calls [OF ph, of new_id now vt c sev dm m]
  obtain r c' where r: "new_violation_record new_id now uid vt c sev dm (default_profile uid) = Inr r"
    and lvl: "vr_escalation_level r = min (up_escalation_level (default_profile uid) + severity_multipliers sev) 4"
    and tk: "take (length ?h1 + 2) (snd (snd (process_violation client new_id now uid vt c sev dm m h)))
               = ?h1 @ [Supabase (Insert_security_violation r), c']"
    by blast
  from tk have "take (length h + 2) (take (length ?h1 + 2) (snd (snd (process_violation client new_id now uid vt c sev dm m h))))
               = h @ [Supabase (Select_security_violations uid), Supabase (Insert_security_violation r)]"
    by simp
  then have tk2: "take (length h + 2) (snd (snd (process_violation client new_id now uid vt c sev dm m h)))
               = h @ [Supabase (Select_security_violations uid), Supabase (Insert_security_violation r)]"
    by (simp add: min_def)
  from lvl have lvl0: "vr_escalation_level r = min (0 + severity_multipliers sev) 4"
    by (simp add: default_profile_def)
  show "get_user_violation_profile client uid h
       = (default_profile uid, h @ [Supabase (Select_security_violations uid)])
     \<and> up_escalation_level (default_profile uid) = 0
     \<and> up_total_violations (default_profile uid) = 0
     \<and> up_account_status (default_profile uid) = ''active''
     \<and> (\<exists>r. new_violation_record new_id now uid vt c sev dm (default_profile uid) = Inr r
          \<and> vr_escalation_level r = min (0 + severity_multipliers sev) 4
          \<and> take (length h + 2) (snd (snd (process_violation client new_id now uid vt c sev dm m h)))
             = h @ [Supabase (Select_security_violations uid), Supabase (Insert_security_violation r)])"
    using ph r lvl0 tk2 by (auto simp add: default_profile_def)
qed

theorem profile_load_failure_fails_open_witness:
  "map (\<lambda>r. (vr_escalation_level r, vr_action_taken r))
     (stored_violations (\<lambda>i. i = 7) 0
        (snd (snd (process_violation (sql_store (\<lambda>i. i = 7)) ''v1'' 100 ''u1'' ''phone_number''
           ''call 555-123-4567'' CRITICAL ''automated'' init_tracker_metrics []))))
     = [(4, PERMANENT_BAN)]
   \<and> sql_store (\<lambda>i. i = 7)
        (snd (snd (process_violation (sql_store (\<lambda>i. i = 7)) ''v1'' 100 ''u1'' ''phone_number''
           ''call 555-123-4567'' CRITICAL ''automated'' init_tracker_metrics [])))
        (Supabase (Select_security_violations ''u1'')) = Inl ToolFailure
   \<and> up_escalation_level (fst (get_user_violation_profile (sql_store (\<lambda>i. i = 7)) ''u1''
        (snd (snd (process_violation (sql_store (\<lambda>i. i = 7)) ''v1'' 100 ''u1'' ''phone_number''
           ''call 555-123-4567'' CRITICAL ''automated'' init_tracker_metrics []))))) = 0
   \<and> snd (snd (process_violation (sql_store (\<lambda>i. i = 7)) ''v2'' 200 ''u1'' ''phone_number''
        ''text me 555-123-4567'' LOW ''automated'' init_tracker_metrics
        (snd (snd (process_violation (sql_store (\<lambda>i. i = 7)) ''v1'' 100 ''u1'' ''phone_number''
           ''call 555-123-4567'' CRITICAL ''automated'' init_tracker_metrics []))))) ! 8
     = Supabase (Insert_security_violation
         \<lparr>vr_id = ''v2'', vr_user_id = ''u1'', vr_violation_type = ''phone_number'',
          vr_severity = LOW, vr_content = ''text me 555-123-4567'',
          vr_detection_method = ''automated'', vr_timestamp = 200,
          vr_action_taken = WARNING, vr_escalation_level = 1, vr_resolved = False\<rparr>)"
proof -
  let ?cl = "sql_store (\<lambda>i. i = 7)"
  let ?H = "snd (snd (process_violation ?cl ''v1'' 100 ''u1'' ''phone_number''
           ''call 555-123-4567'' CRITICAL ''automated'' init_tracker_metrics []))"
  let ?hist = "snd (snd (process_violation ?cl ''v2'' 200 ''u1'' ''phone_number''
        ''text me 555-123-4567'' LOW ''automated'' init_tracker_metrics ?H))"
  let ?R = "\<lparr>vr_id = ''v2'', vr_user_id = ''u1'', vr_violation_type = ''phone_number'',
          vr_severity = LOW, vr_content = ''text me 555-123-4567'',
          vr_detection_method = ''automated'', vr_timestamp = 200,
          vr_action_taken = WARNING, vr_escalation_level = 1, vr_resolved = False\<rparr>"
  have len: "length ?H = 7"
    by (simp add: tracker_eval)
  have stored: "map (\<lambda>r. (vr_escalation_level r, vr_action_taken r))
     (stored_violations (\<lambda>i. i = 7) 0 ?H) = [(4, PERMANENT_BAN)]"
    by (simp add: tracker_eval)
  have down: "?cl ?H (Supabase (Select_security_violations ''u1'')) = Inl ToolFailure"
    using len by (simp add: sql_store_def)
  have R: "new_violation_record ''v2'' 200 ''u1'' ''phone_number'' ''text me 555-123-4567'' LOW
             ''automated'' (default_profile ''u1'') = Inr ?R"
    by (simp add: new_violation_record_def default_profile_def escalation_rules_def Let_def)
  from down profile_load_failure_fails_open [where client = ?cl and h = ?H and uid = "''u1''"
      and e = ToolFailure and new_id = "''v2''" and now = 200 and vt = "''phone_number''"
      and c = "''text me 555-123-4567''" and sev = LOW and dm = "''automated''"
      and m = init_tracker_metrics]
  have prof: "get_user_violation_profile ?cl ''u1'' ?H
       = (default_profile ''u1'', ?H @ [Supabase (Select_security_violations ''u1'')])"
    and lvl: "up_escalation_level (default_profile ''u1'') = 0"
    and ex: "\<exists>r. new_violation_record ''v2'' 200 ''u1'' ''phone_number'' ''text me 555-123-4567'' LOW
             ''automated'' (default_profile ''u1'') = Inr r
          \<and> take (length ?H + 2) ?hist
             = ?H @ [Supabase (Select_security_violations ''u1''), Supabase (Insert_security_violation r)]"
    by blast+
  from ex R have tk: "take (length ?H + 2) ?hist
             = ?H @ [Supabase (Select_security_violations ''u1''), Supabase (Insert_security_violation ?R)]"
    by auto
  have "?hist ! 8 = (?H @ [Supabase (Select_security_violations ''u1''),
                           Supabase (Insert_security_violation ?R)]) ! 8"
    by (rule nth_of_take_eq [OF tk]) (simp add: len)
  also have "\<dots> = Supabase (Insert_security_violation ?R)"
    by (simp add: nth_append len)
  finally have nth: "?hist ! 8 = Supabase (Insert_security_violation ?R)" .
  from prof lvl have zero: "up_escalation_level (fst (get_user_violation_profile ?cl ''u1'' ?H)) = 0"
    by simp
  from stored down zero nth show ?thesis by blast
qed

subsection \<open>C2: a failure to persist the record is not fatal\<close>

text \<open>
  Claim C2, as the code has it. For every call of \<^verbatim>\<open>process_violation\<close> the two tool
  calls after the load of the profile are the INSERT of the new record and then the first
  call of the enforcement action for the record's level, whatever the INSERT answers. When
  the INSERT raises, \<^verbatim>\<open>_store_violation_record\<close> catches the exception and returns
  \<^verbatim>\<open>False\<close>; \<^verbatim>\<open>process_violation\<close> does not look at that result.
\<close>

theorem persist_failure_is_not_fatal:
  "\<exists>r c'. new_violation_record new_id now uid vt c sev dm
               (fst (get_user_violation_profile client uid h)) = Inr r
      \<and> enforcement_call now r = Some c'
      \<and> take (length (snd (get_user_violation_profile client uid h)) + 2)
           (snd (snd (process_violation client new_id now uid vt c sev dm m h)))
          = snd (get_user_violation_profile client uid h) @ [Supabase (Insert_security_violation r), c']
      \<and> (client (snd (get_user_violation_profile client uid h))
                 (Supabase (Insert_security_violation r)) = Inl e
           \<longrightarrow> store_violation_record client r (snd (get_user_violation_profile client uid h))
                 = (False, snd (get_user_violation_profile client uid h)
                             @ [Supabase (Insert_security_violation r)]))"
proof -
  obtain p h1 where ph: "get_user_violation_profile client uid h = (p, h1)"
    by (cases "get_user_violation_profile client uid h")
  from process_violation_calls [OF ph, of new_id now vt c sev dm m]
  obtain r c' where r: "new_violation_record new_id now uid vt c sev dm p = Inr r"
    and c': "enforcement_call now r = Some c'"
    and tk: "take (length h1 + 2) (snd (snd (process_violation client new_id now uid vt c sev dm m h)))
               = h1 @ [Supabase (Insert_security_violation r), c']"
    by blast
  have "client h1 (Supabase (Insert_security_violation r)) = Inl e
           \<longrightarrow> store_violation_record client r h1
                 = (False, h1 @ [Supabase (Insert_security_violation r)])"
    by (simp add: store_violation_record_def call_tool_def)
  with ph r c' tk show ?thesis by auto
qed

theorem persist_failure_is_not_fatal_witness:
  "sql_store (\<lambda>i. i = 4)
      [Supabase (Select_security_violations ''u1''), Redis (Hgetall ''user:restrictions:u1''),
       Redis (Hgetall ''user:suspension:u1''), Redis (Hgetall ''user:ban:u1'')]
      (Supabase (Insert_security_violation
         \<lparr>vr_id = ''v1'', vr_user_id = ''u1'', vr_violation_type = ''phone_number'',
          vr_severity = LOW, vr_content = ''call 555-123-4567'',
          vr_detection_method = ''automated'', vr_timestamp = 100,
          vr_action_taken = WARNING, vr_escalation_level = 1, vr_resolved = False\<rparr>))
     = Inl ToolFailure
   \<and> fst (store_violation_record (sql_store (\<lambda>i. i = 4))
         \<lparr>vr_id = ''v1'', vr_user_id = ''u1'', vr_violation_type = ''phone_number'',
          vr_severity = LOW, vr_content = ''call 555-123-4567'',
          vr_detection_method = ''automated'', vr_timestamp = 100,
          vr_action_taken = WARNING, vr_escalation_level = 1, vr_resolved = False\<rparr>
         [Supabase (Select_security_violations ''u1''), Redis (Hgetall ''user:restrictions:u1''),
          Redis (Hgetall ''user:suspension:u1''), Redis (Hgetall ''user:ban:u1'')]) = False
   \<and> take 6 (snd (snd (process_violation (sql_store (\<lambda>i. i = 4)) ''v1'' 100 ''u1''
         ''phone_number'' ''call 555-123-4567'' LOW ''automated'' init_tracker_metrics [])))
     = [Supabase (Select_security_violations ''u1''), Redis (Hgetall ''user:restrictions:u1''),
        Redis (Hgetall ''user:suspension:u1''), Redis (Hgetall ''user:ban:u1''),
        Supabase (Insert_security_violation
         \<lparr>vr_id = ''v1'', vr_user_id = ''u1'', vr_violation_type = ''phone_number'',
          vr_severity = LOW, vr_content = ''call 555-123-4567'',
          vr_detection_method = ''automated'', vr_timestamp = 100,
          vr_action_taken = WARNING, vr_escalation_level = 1, vr_resolved = False\<rparr>),
        Redis (Xadd ''notifications:user_warnings'' (Warning_message
         \<lparr>vr_id = ''v1'', vr_user_id = ''u1'', vr_violation_type = ''phone_number'',
          vr_severity = LOW, vr_content = ''call 555-123-4567'',
          vr_detection_method = ''automated'', vr_timestamp = 100,
          vr_action_taken = WARNING, vr_escalation_level = 1, vr_resolved = False\<rparr>))]"
proof -
  let ?cl = "sql_store (\<lambda>i. i = 4)"
  let ?h1 = "[Supabase (Select_security_violations ''u1''), Redis (Hgetall ''user:restrictions:u1''),
       Redis (Hgetall ''user:suspension:u1''), Redis (Hgetall ''user:ban:u1'')]"
  let ?R = "\<lparr>vr_id = ''v1'', vr_user_id = ''u1'', vr_violation_type = ''phone_number'',
          vr_severity = LOW, vr_content = ''call 555-123-4567'',
          vr_detection_method = ''automated'', vr_timestamp = 100,
          vr_action_taken = WARNING, vr_escalation_level = 1, vr_resolved = False\<rparr>"
  let ?hist = "snd (snd (process_violation ?cl ''v1'' 100 ''u1''
         ''phone_number'' ''call 555-123-4567'' LOW ''automated'' init_tracker_metrics []))"
  have ph: "get_user_violation_profile ?cl ''u1'' [] = (default_profile ''u1'', ?h1)"
    by (simp add: get_user_violation_profile_def call_tool_def sql_store_def result_rows_def
          get_account_status_def truthy_get_def default_profile_def)
  have R: "new_violation_record ''v1'' 100 ''u1'' ''phone_number'' ''call 555-123-4567'' LOW
             ''automated'' (default_profile ''u1'') = Inr ?R"
    by (simp add: new_violation_record_def default_profile_def escalation_rules_def Let_def)
  have C: "enforcement_call 100 ?R
             = Some (Redis (Xadd ''notifications:user_warnings'' (Warning_message ?R)))"
    by (simp add: enforcement_call_def escalation_rules_def)
  have down: "?cl ?h1 (Supabase (Insert_security_violation ?R)) = Inl ToolFailure"
    by (simp add: sql_store_def)
  from persist_failure_is_not_fatal [where client = ?cl and h = "[]" and uid = "''u1''"
      and e = ToolFailure and new_id = "''v1''" and now = 100 and vt = "''phone_number''"
      and c = "''call 555-123-4567''" and sev = LOW and dm = "''automated''"
      and m = init_tracker_metrics]
  obtain r c' where r: "new_violation_record ''v1'' 100 ''u1'' ''phone_number'' ''call 555-123-4567'' LOW
             ''automated'' (default_profile ''u1'') = Inr r"
    and c': "enforcement_call 100 r = Some c'"
    and tk: "take (length ?h1 + 2) ?hist = ?h1 @ [Supabase (Insert_security_violation r), c']"
    and st: "?cl ?h1 (Supabase (Insert_security_violation r)) = Inl ToolFailure
           \<longrightarrow> store_violation_record ?cl r ?h1
                 = (False, ?h1 @ [Supabase (Insert_security_violation r)])"
    unfolding ph fst_conv snd_conv by blast
  from r R have rR: "r = ?R" by simp
  from c' C rR have cC: "c' = Redis (Xadd ''notifications:user_warnings'' (Warning_message ?R))"
    by simp
  from st down rR have "fst (store_violation_record ?cl ?R ?h1) = False" by simp
  moreover from tk rR cC have "take 6 ?hist
     = ?h1 @ [Supabase (Insert_security_violation ?R),
              Redis (Xadd ''notifications:user_warnings'' (Warning_message ?R))]"
    by (simp add: eval_nat_numeral)
  ultimately show ?thesis using down by simp
qed

text \<open>
  The claim as stated fails: with a store that is unavailable for the INSERT (the fifth
  call), nothing is stored, and yet the warning is sent next. The call does end with an
  exception, but with the one it also ends with when the record is stored.
\<close>

theorem persist_failure_counterexample:
  "snd (snd (process_violation (sql_store (\<lambda>i. i = 4)) ''v1'' 100 ''u1''
         ''phone_number'' ''call 555-123-4567'' LOW ''automated'' init_tracker_metrics []))
     = [Supabase (Select_security_violations ''u1''), Redis (Hgetall ''user:restrictions:u1''),
        Redis (Hgetall ''user:suspension:u1''), Redis (Hgetall ''user:ban:u1''),
        Supabase (Insert_security_violation
         \<lparr>vr_id = ''v1'', vr_user_id = ''u1'', vr_violation_type = ''phone_number'',
          vr_severity = LOW, vr_content = ''call 555-123-4567'',
          vr_detection_method = ''automated'', vr_timestamp = 100,
          vr_action_taken = WARNING, vr_escalation_level = 1, vr_resolved = False\<rparr>),
        Redis (Xadd ''notifications:user_warnings'' (Warning_message
         \<lparr>vr_id = ''v1'', vr_user_id = ''u1'', vr_violation_type = ''phone_number'',
          vr_severity = LOW, vr_content = ''call 555-123-4567'',
          vr_detection_method = ''automated'', vr_timestamp = 100,
          vr_action_taken = WARNING, vr_escalation_level = 1, vr_resolved = False\<rparr>))]
   \<and> sql_store (\<lambda>i. i = 4)
      [Supabase (Select_security_violations ''u1''), Redis (Hgetall ''user:restrictions:u1''),
       Redis (Hgetall ''user:suspension:u1''), Redis (Hgetall ''user:ban:u1'')]
      (Supabase (Insert_security_violation
         \<lparr>vr_id = ''v1'', vr_user_id = ''u1'', vr_violation_type = ''phone_number'',
          vr_severity = LOW, vr_content = ''call 555-123-4567'',
          vr_detection_method = ''automated'', vr_timestamp = 100,
          vr_action_taken = WARNING, vr_escalation_level = 1, vr_resolved = False\<rparr>))
     = Inl ToolFailure
   \<and> stored_violations (\<lambda>i. i = 4) 0
        (snd (snd (process_violation (sql_store (\<lambda>i. i = 4)) ''v1'' 100 ''u1''
           ''phone_number'' ''call 555-123-4567'' LOW ''automated'' init_tracker_metrics [])))
     = []
   \<and> fst (process_violation (sql_store (\<lambda>i. i = 4)) ''v1'' 100 ''u1''
         ''phone_number'' ''call 555-123-4567'' LOW ''automated'' init_tracker_metrics [])
     = Inl (AttributeError ''_update_user_escalation_level'')
   \<and> fst (process_violation (sql_store (\<lambda>i. False)) ''v1'' 100 ''u1''
         ''phone_number'' ''call 555-123-4567'' LOW ''automated'' init_tracker_metrics [])
     = Inl (AttributeError ''_update_user_escalation_level'')"
  by (simp add: tracker_eval)

section \<open>Properties of the contact protection filter\<close>

subsection \<open>C8: scan\_content on every input\<close>

text \<open>
  Claim C8 says that the scan never raises. On the code, \<^verbatim>\<open>scan_content\<close> raises
  \<^verbatim>\<open>AttributeError\<close> on every input, the empty text included: after the phone and email
  layers it looks up \<^verbatim>\<open>self._detect_social_media\<close>, which the class does not define.
\<close>

theorem scan_content_raises:
  "scan_content now content user_id context = Inl (AttributeError ''_detect_social_media'')"
  by (simp add: scan_content_def detect_social_media_def Let_def)

subsection \<open>C6: the canonical phone number\<close>

text \<open>
  Claim C6 says that a scan of a text with a canonical phone number reports a
  \<^verbatim>\<open>phone_number\<close> match and replaces the span by the placeholder. On the code, the scan
  of \<^verbatim>\<open>555-123-4567\<close> raises \<^verbatim>\<open>AttributeError\<close>. The phone layer by itself does find the
  number, with four of its patterns and each time as the span from 0 to 12; the filtering
  step then replaces that span four times, each time with the offsets of the original text,
  and what it returns is the placeholder followed by three remainders of itself.
\<close>

theorem canonical_phone_scan:
  "scan_content 0 ''555-123-4567'' ''u1'' None = Inl (AttributeError ''_detect_social_media'')
   \<and> map (\<lambda>v. (cv_type v, cv_pattern v, cv_match v, cv_position v)) (detect_phones ''555-123-4567'')
     = [(''phone_number'', Some 0, ''555-123-4567'', Some (0, 12)),
        (''phone_number'', Some 5, ''555-123-4567'', Some (0, 12)),
        (''phone_number'', Some 8, ''555-123-4567'', Some (0, 12)),
        (''phone_number'', Some 10, ''555-123-4567'', Some (0, 12))]
   \<and> apply_content_filtering ''555-123-4567'' (detect_phones ''555-123-4567'')
     = ''[PHONE NUMBER BLOCKED]R BLOCKED]R BLOCKED]R BLOCKED]''"
proof -
  have a: "scan_content 0 ''555-123-4567'' ''u1'' None = Inl (AttributeError ''_detect_social_media'')"
    by (simp add: scan_content_def detect_social_media_def Let_def)
  have b: "map (\<lambda>v. (cv_type v, cv_pattern v, cv_match v, cv_position v)) (detect_phones ''555-123-4567'')
     = [(''phone_number'', Some 0, ''555-123-4567'', Some (0, 12)),
        (''phone_number'', Some 5, ''555-123-4567'', Some (0, 12)),
        (''phone_number'', Some 8, ''555-123-4567'', Some (0, 12)),
        (''phone_number'', Some 10, ''555-123-4567'', Some (0, 12))]"
    by code_simp
  have c: "apply_content_filtering ''555-123-4567'' (detect_phones ''555-123-4567'')
     = ''[PHONE NUMBER BLOCKED]R BLOCKED]R BLOCKED]R BLOCKED]''"
    by code_simp
  from a b c show ?thesis by blast
qed

subsection \<open>C5: scanning redacted text again\<close>

text \<open>
  Claim C5 says that the placeholders are never detected as violations. On the code, the
  placeholder for an email address is \<^verbatim>\<open>[EMAIL BLOCKED]\<close>, the filtering step turns
  \<^verbatim>\<open>john@example.com\<close> into exactly that text, and the email layer detects
  \<^verbatim>\<open>EMAIL BLOCKED\<close> in it (the fourth email pattern: one of the words email, gmail, ...,
  then spaces, then address characters, case ignored), so that filtering the redacted text
  wraps it in a second pair of brackets. The scan itself raises \<^verbatim>\<open>AttributeError\<close>, as on
  every input.
\<close>

theorem email_placeholder_is_redetected:
  "get_replacement_text ''email_address'' = ''[EMAIL BLOCKED]''
   \<and> apply_content_filtering ''john@example.com''
        (detect_phones ''john@example.com'' @ detect_emails ''john@example.com'')
     = ''[EMAIL BLOCKED]''
   \<and> map (\<lambda>v. (cv_type v, cv_pattern v, cv_match v, cv_position v)) (detect_emails ''[EMAIL BLOCKED]'')
     = [(''email_address'', Some 3, ''EMAIL BLOCKED'', Some (1, 14))]
   \<and> apply_content_filtering ''[EMAIL BLOCKED]''
        (detect_phones ''[EMAIL BLOCKED]'' @ detect_emails ''[EMAIL BLOCKED]'')
     = ''[[EMAIL BLOCKED]]''
   \<and> scan_content 0 ''john@example.com'' ''u1'' None = Inl (AttributeError ''_detect_social_media'')"
proof -
  have a: "get_replacement_text ''email_address'' = ''[EMAIL BLOCKED]''"
    by (simp add: get_replacement_text_def)
  have b: "apply_content_filtering ''john@example.com''
        (detect_phones ''john@example.com'' @ detect_emails ''john@example.com'')
     = ''[EMAIL BLOCKED]''"
    by code_simp
  have c: "map (\<lambda>v. (cv_type v, cv_pattern v, cv_match v, cv_position v)) (detect_emails ''[EMAIL BLOCKED]'')
     = [(''email_address'', Some 3, ''EMAIL BLOCKED'', Some (1, 14))]"
    by code_simp
  have d: "apply_content_filtering ''[EMAIL BLOCKED]''
        (detect_phones ''[EMAIL BLOCKED]'' @ detect_emails ''[EMAIL BLOCKED]'')
     = ''[[EMAIL BLOCKED]]''"
    by code_simp
  have e: "scan_content 0 ''john@example.com'' ''u1'' None = Inl (AttributeError ''_detect_social_media'')"
    by (simp add: scan_content_def detect_social_media_def Let_def)
  from a b c d e show ?thesis by blast
qed

end
